theory Spec2Isabelle
  imports Complex_Main "HOL-Library.List_Lexorder" "HOL-Library.Char_ord"
begin

section \<open>Data model (app/models.py)\<close>

text \<open>
  Primary keys are UUID strings. A calendar date is its day number (Python's
  \<open>date.toordinal()\<close>); an absolute instant is a number of minutes on that scale
  (day number times 1440 plus minute of the day), as all times of the scheduling core
  are built from hours and minutes. Amounts of money are rationals. The store is the
  PostgreSQL database that app/config.py names and from whose dialect app/models.py
  takes its \<open>UUID\<close> and \<open>JSON\<close> columns.
\<close>

type_synonym uid = string
type_synonym date = int
type_synonym instant = int

datatype AvailabilityStatus = AVAILABLE | BOOKED | AV_CANCELLED | BLOCKED | MAINTENANCE

datatype AppointmentType = CONSULTATION | FOLLOW_UP | EMERGENCY | TELEMEDICINE

datatype AppointmentStatus =
  SCHEDULED | CONFIRMED | IN_PROGRESS | COMPLETED | CANCELLED | NO_SHOW | RESCHEDULED

datatype PaymentStatus = PENDING | PAID | PARTIAL | REFUNDED | PAY_CANCELLED

datatype RecurrencePattern = DAILY | WEEKLY | MONTHLY

text \<open>\<open>AppointmentType.value\<close>, the string stored in a slot's \<open>appointment_type\<close> column.\<close>

fun appointment_type_value :: "AppointmentType \<Rightarrow> string" where
  "appointment_type_value CONSULTATION = ''consultation''"
| "appointment_type_value FOLLOW_UP = ''follow_up''"
| "appointment_type_value EMERGENCY = ''emergency''"
| "appointment_type_value TELEMEDICINE = ''telemedicine''"

text \<open>A wall-clock time \<open>HH:mm\<close>, as \<open>datetime.time\<close> holds it.\<close>

record pytime =
  hour :: int
  minute :: int

text \<open>The JSON object of the \<open>pricing\<close> column; \<open>None\<close> is an absent key.\<close>

record pricing =
  pr_base_fee :: "rat option"
  pr_insurance_accepted :: "bool option"
  pr_currency :: "string option"

record provider =
  p_id :: uid
  p_first_name :: string
  p_last_name :: string
  p_specialization :: string
  p_years_of_experience :: "int option"
  p_clinic_address :: "(string \<times> string) list"
  p_is_active :: bool

record patient =
  pt_id :: uid
  pt_email :: string

text \<open>A row of \<open>provider_availability\<close>: one availability window on one date.\<close>

record window =
  w_id :: uid
  w_provider_id :: uid
  w_date :: date
  w_start_time :: pytime
  w_end_time :: pytime
  w_timezone :: string
  w_is_recurring :: bool
  w_recurrence_pattern :: "RecurrencePattern option"
  w_recurrence_end_date :: "date option"
  w_slot_duration :: int
  w_break_duration :: int
  w_status :: AvailabilityStatus
  w_max_appointments_per_slot :: int
  w_current_appointments :: int
  w_appointment_type :: AppointmentType
  w_location :: string
  w_pricing :: "pricing option"
  w_notes :: "string option"
  w_special_requirements :: "string list option"

record slot =
  s_id :: uid
  s_availability_id :: uid
  s_provider_id :: uid
  s_slot_start_time :: instant
  s_slot_end_time :: instant
  s_status :: AvailabilityStatus
  s_patient_id :: "uid option"
  s_appointment_type :: string
  s_booking_reference :: "string option"

text \<open>
  A row of \<open>appointments\<close>. The columns that \<open>create_appointment\<close> leaves at their
  defaults and that no invariant of the booking engine reads (actual times, medical
  notes, follow-up and notification flags) are left out.
\<close>

record appointment =
  a_id :: uid
  a_slot_id :: uid
  a_provider_id :: uid
  a_patient_id :: uid
  a_appointment_type :: AppointmentType
  a_status :: AppointmentStatus
  a_payment_status :: PaymentStatus
  a_scheduled_start_time :: instant
  a_scheduled_end_time :: instant
  a_location :: string
  a_contact_phone :: "string option"
  a_contact_email :: "string option"
  a_symptoms :: "string option"
  a_base_fee :: rat
  a_insurance_coverage :: rat
  a_patient_payment :: rat
  a_currency :: string
  a_booking_reference :: string
  a_cancellation_reason :: "string option"
  a_cancelled_by :: "string option"
  a_cancelled_at :: "instant option"

text \<open>The session's view of the store: one list of rows per table, in insertion order.\<close>

record db =
  providers :: "provider list"
  patients :: "patient list"
  availabilities :: "window list"
  slots :: "slot list"
  appointments :: "appointment list"

text \<open>
  \<open>HTTPException\<close> with status 404 or 400 and its detail; \<open>Conflict st et\<close> is the
  status-400 exception whose detail is "Time slot conflicts with existing availability:
  st-et". Any other exception leaves the function uncaught (the session is never
  committed) and is reported by the routers as status 500.
\<close>

datatype error =
    NotFound string
  | BadRequest string
  | Conflict pytime pytime
  | InternalError string

section \<open>Column types\<close>

text \<open>
  A value that does not fit its column makes the statement fail with \<open>DataError\<close>; a
  violated primary-key, unique, foreign-key or not-null constraint makes it fail with
  \<open>IntegrityError\<close>.

  \<open>Numeric(10, 2)\<close> rounds to two decimals, a tie away from zero, and holds the results
  below \<open>10^8\<close> in absolute value. \<open>String(n)\<close> holds \<open>n\<close> characters, and cuts off
  excess characters when all of them are spaces. \<open>Integer\<close> is a 32-bit signed integer.
  \<open>Enum(RecurrencePattern)\<close> stores the name of a member: SQLAlchemy finds it for a
  member, for a string equal to a member (these are \<open>str\<close> enums) and for a member's
  name, and hands any other string to the database unchanged, which refuses it.
\<close>

definition numeric_round2 :: "rat \<Rightarrow> rat" where
  "numeric_round2 x = (if 0 \<le> x then of_int \<lfloor>x * 100 + 1 / 2\<rfloor> / 100
                       else - (of_int \<lfloor>- x * 100 + 1 / 2\<rfloor> / 100))"

definition numeric_10_2 :: "rat \<Rightarrow> error + rat" where
  "numeric_10_2 x = (if \<bar>numeric_round2 x\<bar> < 100000000 then Inr (numeric_round2 x)
                     else Inl (InternalError ''DataError''))"

definition varchar :: "nat \<Rightarrow> string \<Rightarrow> error + string" where
  "varchar n s = (if \<forall>c \<in> set (drop n s). c = CHR '' '' then Inr (take n s)
                  else Inl (InternalError ''DataError''))"

definition varchar_opt :: "nat \<Rightarrow> string option \<Rightarrow> error + string option" where
  "varchar_opt n v = (case v of
                        None \<Rightarrow> Inr None
                      | Some s \<Rightarrow> (case varchar n s of Inl e \<Rightarrow> Inl e | Inr t \<Rightarrow> Inr (Some t)))"

definition int4 :: "int \<Rightarrow> bool" where
  "int4 n = (- 2147483648 \<le> n \<and> n \<le> 2147483647)"

definition recurrence_pattern_column :: "string option \<Rightarrow> error + RecurrencePattern option" where
  "recurrence_pattern_column v =
     (case v of
        None \<Rightarrow> Inr None
      | Some s \<Rightarrow>
          if s = ''daily'' \<or> s = ''DAILY'' then Inr (Some DAILY)
          else if s = ''weekly'' \<or> s = ''WEEKLY'' then Inr (Some WEEKLY)
          else if s = ''monthly'' \<or> s = ''MONTHLY'' then Inr (Some MONTHLY)
          else Inl (InternalError ''DataError''))"

section \<open>Row access\<close>

definition get_provider_by_id :: "db \<Rightarrow> uid \<Rightarrow> provider option" where
  "get_provider_by_id d provider_id = find (\<lambda>p. p_id p = provider_id) (providers d)"

definition get_patient_by_id :: "db \<Rightarrow> uid \<Rightarrow> patient option" where
  "get_patient_by_id d patient_id = find (\<lambda>p. pt_id p = patient_id) (patients d)"

definition get_appointment_by_id :: "db \<Rightarrow> uid \<Rightarrow> appointment option" where
  "get_appointment_by_id d appointment_id = find (\<lambda>a. a_id a = appointment_id) (appointments d)"

text \<open>\<open>db.query(AppointmentSlot).filter(AppointmentSlot.id == slot_id).first()\<close>\<close>

definition query_slot :: "db \<Rightarrow> uid \<Rightarrow> slot option" where
  "query_slot d slot_id = find (\<lambda>s. s_id s = slot_id) (slots d)"

text \<open>The relationships \<open>slot.availability\<close> and \<open>appointment.slot\<close>.\<close>

definition slot_availability :: "db \<Rightarrow> slot \<Rightarrow> window option" where
  "slot_availability d s = find (\<lambda>w. w_id w = s_availability_id s) (availabilities d)"

definition appointment_slot :: "db \<Rightarrow> appointment \<Rightarrow> slot option" where
  "appointment_slot d a = query_slot d (a_slot_id a)"

text \<open>Attribute assignment on a loaded row, written back to its table.\<close>

definition set_slot :: "uid \<Rightarrow> (slot \<Rightarrow> slot) \<Rightarrow> db \<Rightarrow> db" where
  "set_slot k f d = d\<lparr>slots := map (\<lambda>s. if s_id s = k then f s else s) (slots d)\<rparr>"

definition set_availability :: "uid \<Rightarrow> (window \<Rightarrow> window) \<Rightarrow> db \<Rightarrow> db" where
  "set_availability k f d =
     d\<lparr>availabilities := map (\<lambda>w. if w_id w = k then f w else w) (availabilities d)\<rparr>"

definition set_appointment :: "uid \<Rightarrow> (appointment \<Rightarrow> appointment) \<Rightarrow> db \<Rightarrow> db" where
  "set_appointment k f d =
     d\<lparr>appointments := map (\<lambda>a. if a_id a = k then f a else a) (appointments d)\<rparr>"

section \<open>Booking engine (app/crud.py)\<close>

text \<open>The \<open>appointment_data\<close> dictionary of a booking request.\<close>

record appointment_data =
  ad_slot_id :: uid
  ad_appointment_type :: AppointmentType
  ad_symptoms :: "string option"
  ad_contact_phone :: "string option"
  ad_contact_email :: "string option"
  ad_insurance_coverage :: "rat option"
  ad_patient_payment :: "rat option"

text \<open>
  The unique constraints of models.py that the commit of a booking can violate:
  \<open>appointment_slots.booking_reference\<close>, on the update of the slot, and the primary key
  and the \<open>booking_reference\<close> of \<open>appointments\<close>, on the insertion of the appointment.
\<close>

definition slot_reference_free :: "db \<Rightarrow> string \<Rightarrow> uid \<Rightarrow> bool" where
  "slot_reference_free d ref slot_id =
     (\<forall>s \<in> set (slots d). s_id s \<noteq> slot_id \<longrightarrow> s_booking_reference s \<noteq> Some ref)"





text \<open>
  \<open>cancel_appointment\<close>; \<open>now\<close> is \<open>datetime.utcnow()\<close>. An unknown appointment
  id returns \<open>None\<close> without an error.
\<close>

definition cancel_appointment ::
  "instant \<Rightarrow> db \<Rightarrow> uid \<Rightarrow> string \<Rightarrow> string \<Rightarrow> error + (db \<times> appointment option)" where
  "cancel_appointment now d appointment_id reason cancelled_by =
     (case get_appointment_by_id d appointment_id of
        None \<Rightarrow> Inr (d, None)
      | Some appt \<Rightarrow>
     if a_status appt = CANCELLED \<or> a_status appt = COMPLETED
     then Inl (BadRequest ''Appointment cannot be cancelled'')
     else
     (case appointment_slot d appt of
        None \<Rightarrow> Inl (InternalError ''AttributeError'')
      | Some sl \<Rightarrow>
     (case slot_availability d sl of
        None \<Rightarrow> Inl (InternalError ''AttributeError'')
      | Some availability \<Rightarrow>
       let d1 = set_appointment appointment_id
                  (\<lambda>a. a\<lparr>a_status := CANCELLED, a_cancellation_reason := Some reason,
                          a_cancelled_by := Some cancelled_by, a_cancelled_at := Some now\<rparr>) d;
           d2 = set_slot (s_id sl)
                  (\<lambda>s. s\<lparr>s_status := AVAILABLE, s_patient_id := None,
                          s_booking_reference := None\<rparr>) d1;
           d3 = set_availability (w_id availability)
                  (\<lambda>w. w\<lparr>w_current_appointments := max 0 (w_current_appointments w - 1)\<rparr>) d2
       in Inr (d3, get_appointment_by_id d3 appointment_id))))"



text \<open>
  \<open>reschedule_appointment\<close>; the \<open>reason\<close> argument is not used by the source. The
  commit updates the two slot rows in the order of their primary keys, and
  \<open>appointment_slots.booking_reference\<close> is unique: when the new slot is written
  first, the old slot still holds the reference. The \<open>IntegrityError\<close> is not caught.
\<close>

definition reschedule_appointment ::
  "db \<Rightarrow> uid \<Rightarrow> uid \<Rightarrow> string option \<Rightarrow> error + (db \<times> appointment option)" where
  "reschedule_appointment d appointment_id new_slot_id reason =
     (case get_appointment_by_id d appointment_id of
        None \<Rightarrow> Inr (d, None)
      | Some appt \<Rightarrow>
     if a_status appt = CANCELLED \<or> a_status appt = COMPLETED
     then Inl (BadRequest ''Appointment cannot be rescheduled'')
     else
     (case query_slot d new_slot_id of
        None \<Rightarrow> Inl (NotFound ''New appointment slot not found'')
      | Some new_slot \<Rightarrow>
     if s_status new_slot \<noteq> AVAILABLE
     then Inl (BadRequest ''New appointment slot is not available'')
     else
     (case appointment_slot d appt of
        None \<Rightarrow> Inl (InternalError ''AttributeError'')
      | Some old_slot \<Rightarrow>
       let d1 = set_slot (s_id old_slot)
                  (\<lambda>s. s\<lparr>s_status := AVAILABLE, s_patient_id := None,
                          s_booking_reference := None\<rparr>) d;
           d2 = set_slot (s_id new_slot)
                  (\<lambda>s. s\<lparr>s_status := BOOKED, s_patient_id := Some (a_patient_id appt),
                          s_booking_reference := Some (a_booking_reference appt)\<rparr>) d1;
           d3 = set_appointment appointment_id
                  (\<lambda>a. a\<lparr>a_slot_id := new_slot_id,
                          a_scheduled_start_time := s_slot_start_time new_slot,
                          a_scheduled_end_time := s_slot_end_time new_slot,
                          a_status := RESCHEDULED\<rparr>) d2
       in if slot_reference_free (if s_id old_slot < s_id new_slot then d1 else d)
               (a_booking_reference appt) (s_id new_slot)
          then Inr (d3, get_appointment_by_id d3 appointment_id)
          else Inl (InternalError ''IntegrityError''))))"

section \<open>Availability creation (app/crud.py)\<close>

text \<open>
  The \<open>availability_data\<close> dictionary. The two times arrive as \<open>HH:mm\<close> strings; the
  model keeps the two numbers and lets \<open>time_fromisoformat\<close> reject what
  \<open>time.fromisoformat\<close> rejects.
\<close>

record availability_data =
  av_date :: date
  av_start_time :: pytime
  av_end_time :: pytime
  av_timezone :: string
  av_slot_duration :: int
  av_break_duration :: int
  av_is_recurring :: bool
  av_recurrence_pattern :: "string option"
  av_recurrence_end_date :: "date option"
  av_max_appointments_per_slot :: "int option"
  av_appointment_type :: AppointmentType
  av_location :: string
  av_pricing :: "pricing option"
  av_notes :: "string option"
  av_special_requirements :: "string list option"

text \<open>The constructor \<open>time(h, m)\<close>: a \<open>ValueError\<close> outside 0..23 and 0..59.\<close>

definition mk_time :: "int \<Rightarrow> int \<Rightarrow> error + pytime" where
  "mk_time h m =
     (if 0 \<le> h \<and> h < 24 \<and> 0 \<le> m \<and> m < 60 then Inr \<lparr>hour = h, minute = m\<rparr>
      else Inl (InternalError ''ValueError''))"

definition time_fromisoformat :: "pytime \<Rightarrow> error + pytime" where
  "time_fromisoformat t = mk_time (hour t) (minute t)"

text \<open>\<open>datetime.combine(date, time)\<close>, a naive date-time in minutes.\<close>

definition combine :: "date \<Rightarrow> pytime \<Rightarrow> int" where
  "combine dt t = dt * 1440 + hour t * 60 + minute t"

text \<open>The times \<open>time(h, m)\<close> accepts, and the minute of the day of a time.\<close>

definition valid_time :: "pytime \<Rightarrow> bool" where
  "valid_time t = (0 \<le> hour t \<and> hour t < 24 \<and> 0 \<le> minute t \<and> minute t < 60)"

definition minute_of_day :: "pytime \<Rightarrow> int" where
  "minute_of_day t = hour t * 60 + minute t"

text \<open>The loop over \<open>existing_conflicts\<close>, raising at the first overlap.\<close>

fun check_conflicts :: "int \<Rightarrow> int \<Rightarrow> window list \<Rightarrow> error + unit" where
  "check_conflicts start_datetime end_datetime [] = Inr ()"
| "check_conflicts start_datetime end_datetime (existing # rest) =
     (case time_fromisoformat (w_start_time existing) of
        Inl e \<Rightarrow> Inl e
      | Inr es \<Rightarrow>
     (case time_fromisoformat (w_end_time existing) of
        Inl e \<Rightarrow> Inl e
      | Inr ee \<Rightarrow>
       if start_datetime < combine (w_date existing) ee \<and>
          end_datetime > combine (w_date existing) es
       then Inl (Conflict (w_start_time existing) (w_end_time existing))
       else check_conflicts start_datetime end_datetime rest))"

definition existing_conflicts :: "db \<Rightarrow> uid \<Rightarrow> date \<Rightarrow> window list" where
  "existing_conflicts d provider_id dt =
     filter (\<lambda>w. w_provider_id w = provider_id \<and> w_date w = dt \<and>
                 (w_status w = AVAILABLE \<or> w_status w = BOOKED)) (availabilities d)"

text \<open>
  \<open>dateutil.rrule.rrule(freq, dtstart=..., until=...)\<close> belongs to a library outside the
  repository: its expansion of a frequency, a first date and a last date into the list
  of occurrence dates is an argument of the model.
\<close>

datatype freq = rrule_DAILY | rrule_WEEKLY | rrule_MONTHLY

type_synonym rrule = "freq \<Rightarrow> date \<Rightarrow> date \<Rightarrow> date list"

definition dates_to_create :: "rrule \<Rightarrow> availability_data \<Rightarrow> error + date list" where
  "dates_to_create rr data =
     (case av_recurrence_end_date data of
        None \<Rightarrow> Inr [av_date data]
      | Some until \<Rightarrow>
     (case av_recurrence_pattern data of
        None \<Rightarrow> Inr [av_date data]
      | Some pat \<Rightarrow>
       if av_is_recurring data \<and> pat \<noteq> []
       then (if pat = ''daily'' then Inr (rr rrule_DAILY (av_date data) until)
             else if pat = ''weekly'' then Inr (rr rrule_WEEKLY (av_date data) until)
             else if pat = ''monthly'' then Inr (rr rrule_MONTHLY (av_date data) until)
             else Inl (BadRequest ''Invalid recurrence pattern''))
       else Inr [av_date data]))"

text \<open>
  A pytz timezone, as far as the code uses it: the UTC offset (in minutes) that
  \<open>tz.localize\<close> gives a naive local date-time, and the offset in force at an absolute
  instant, which \<open>astimezone(tz)\<close> adds. \<open>pytz.timezone\<close> is the lookup \<open>tzs\<close>; \<open>None\<close>
  is \<open>UnknownTimeZoneError\<close>.
\<close>

record tzinfo =
  utcoffset_local :: "int \<Rightarrow> int"
  utcoffset_utc :: "int \<Rightarrow> int"

definition UTC :: tzinfo where
  "UTC = \<lparr>utcoffset_local = (\<lambda>_. 0), utcoffset_utc = (\<lambda>_. 0)\<rparr>"

type_synonym tzdb = "string \<Rightarrow> tzinfo option"

text \<open>\<open>tz.localize(naive).astimezone(pytz.UTC)\<close> and \<open>instant.astimezone(tz)\<close>.\<close>

definition to_utc :: "tzinfo \<Rightarrow> int \<Rightarrow> instant" where
  "to_utc tz naive = naive - utcoffset_local tz naive"

definition astimezone :: "tzinfo \<Rightarrow> instant \<Rightarrow> int" where
  "astimezone tz t = t + utcoffset_utc tz t"


text \<open>One round of the loop of \<open>generate_appointment_slots\<close>, for slot index \<open>i\<close>.\<close>

definition make_slot :: "tzinfo \<Rightarrow> window \<Rightarrow> pytime \<Rightarrow> uid \<Rightarrow> nat \<Rightarrow> error + slot" where
  "make_slot tz availability start_time new_id i =
     (let slot_start_minutes = hour start_time * 60 + minute start_time
            + int i * (w_slot_duration availability + w_break_duration availability);
          slot_end_minutes = slot_start_minutes + w_slot_duration availability
      in case mk_time (slot_start_minutes div 60) (slot_start_minutes mod 60) of
           Inl e \<Rightarrow> Inl e
         | Inr st \<Rightarrow>
        (case mk_time (slot_end_minutes div 60) (slot_end_minutes mod 60) of
           Inl e \<Rightarrow> Inl e
         | Inr et \<Rightarrow>
           Inr \<lparr> s_id = new_id,
                 s_availability_id = w_id availability,
                 s_provider_id = w_provider_id availability,
                 s_slot_start_time = to_utc tz (combine (w_date availability) st),
                 s_slot_end_time = to_utc tz (combine (w_date availability) et),
                 s_status = AVAILABLE,
                 s_patient_id = None,
                 s_appointment_type = appointment_type_value (w_appointment_type availability),
                 s_booking_reference = None \<rparr>))"

text \<open>
  The loop of \<open>generate_appointment_slots\<close>: \<open>db.add\<close> leaves each new slot pending in
  the session until the next flush.
\<close>

fun slot_loop ::
  "tzinfo \<Rightarrow> window \<Rightarrow> pytime \<Rightarrow> (nat \<Rightarrow> uid) \<Rightarrow> nat list \<Rightarrow> slot list \<Rightarrow> int \<Rightarrow>
   error + (slot list \<times> int)" where
  "slot_loop tz availability start_time ids [] pending slots_created =
     Inr (pending, slots_created)"
| "slot_loop tz availability start_time ids (i # rest) pending slots_created =
     (case make_slot tz availability start_time (ids i) i of
        Inl e \<Rightarrow> Inl e
      | Inr s \<Rightarrow>
          slot_loop tz availability start_time ids rest (pending @ [s]) (slots_created + 1))"

text \<open>
  \<open>generate_appointment_slots\<close>; \<open>ids i\<close> is the primary key \<open>uuid.uuid4()\<close> gives the
  slot of index \<open>i\<close>. An unknown timezone name falls back to UTC. The result is the list
  of pending slots with their number.
\<close>

definition generate_appointment_slots ::
  "tzdb \<Rightarrow> (nat \<Rightarrow> uid) \<Rightarrow> window \<Rightarrow> int \<Rightarrow> string \<Rightarrow> error + (slot list \<times> int)" where
  "generate_appointment_slots tzs ids availability slots_count timezone_str =
     (let tz = (case tzs timezone_str of None \<Rightarrow> UTC | Some z \<Rightarrow> z)
      in case time_fromisoformat (w_start_time availability) of
           Inl e \<Rightarrow> Inl e
         | Inr start_time \<Rightarrow>
             slot_loop tz availability start_time ids [0..<nat slots_count] [] 0)"

text \<open>The insertion of the pending slots at a flush: their primary keys must be new.\<close>

definition flush_slots :: "db \<Rightarrow> slot list \<Rightarrow> error + db" where
  "flush_slots d pending =
     (if distinct (map s_id pending) \<and> (\<forall>s \<in> set pending. s_id s \<notin> set (map s_id (slots d)))
      then Inr (d\<lparr>slots := slots d @ pending\<rparr>)
      else Inl (InternalError ''IntegrityError''))"

text \<open>
  The window row built for one occurrence date, as its insertion stores it: the
  timezone name in \<open>String(50)\<close>, the recurrence pattern in its enum column, the three
  numbers in \<open>Integer\<close> columns.
\<close>

definition new_availability :: "uid \<Rightarrow> uid \<Rightarrow> availability_data \<Rightarrow> date \<Rightarrow> error + window" where
  "new_availability new_id provider_id data current_date =
     (case varchar 50 (av_timezone data) of
        Inl e \<Rightarrow> Inl e
      | Inr timezone \<Rightarrow>
     (case recurrence_pattern_column (av_recurrence_pattern data) of
        Inl e \<Rightarrow> Inl e
      | Inr pattern \<Rightarrow>
       let max_appointments = (case av_max_appointments_per_slot data of
                                 None \<Rightarrow> 1 | Some n \<Rightarrow> n)
       in if int4 (av_slot_duration data) \<and> int4 (av_break_duration data) \<and>
             int4 max_appointments
          then Inr \<lparr> w_id = new_id,
                     w_provider_id = provider_id,
                     w_date = current_date,
                     w_start_time = av_start_time data,
                     w_end_time = av_end_time data,
                     w_timezone = timezone,
                     w_is_recurring = av_is_recurring data,
                     w_recurrence_pattern = pattern,
                     w_recurrence_end_date = av_recurrence_end_date data,
                     w_slot_duration = av_slot_duration data,
                     w_break_duration = av_break_duration data,
                     w_status = AVAILABLE,
                     w_max_appointments_per_slot = max_appointments,
                     w_current_appointments = 0,
                     w_appointment_type = av_appointment_type data,
                     w_location = av_location data,
                     w_pricing = av_pricing data,
                     w_notes = av_notes data,
                     w_special_requirements = av_special_requirements data \<rparr>
          else Inl (InternalError ''DataError'')))"

text \<open>
  The body of the loop over \<open>dates_to_create\<close>, for the occurrence of index \<open>k\<close>:
  \<open>wids k\<close> and \<open>sids k i\<close> are the primary keys of its window and of its slots.
  \<open>db.flush()\<close> inserts the window and then the slots left pending by the previous
  round; the slots generated in this round stay pending.
\<close>

definition create_for_date ::
  "tzdb \<Rightarrow> (nat \<Rightarrow> uid) \<Rightarrow> (nat \<Rightarrow> nat \<Rightarrow> uid) \<Rightarrow> uid \<Rightarrow> availability_data \<Rightarrow>
   nat \<Rightarrow> date \<Rightarrow> db \<Rightarrow> slot list \<Rightarrow> error + (db \<times> slot list \<times> window \<times> int)" where
  "create_for_date tzs wids sids provider_id data k current_date d pending =
     (case time_fromisoformat (av_start_time data) of
        Inl e \<Rightarrow> Inl e
      | Inr start_time \<Rightarrow>
     (case time_fromisoformat (av_end_time data) of
        Inl e \<Rightarrow> Inl e
      | Inr end_time \<Rightarrow>
       let total_minutes = (hour end_time * 60 + minute end_time)
                             - (hour start_time * 60 + minute start_time);
           effective_duration = av_slot_duration data + av_break_duration data
       in if effective_duration \<le> 0
          then Inl (BadRequest ''Invalid slot duration or break duration'')
          else
            let slots_count = total_minutes div effective_duration
            in case new_availability (wids k) provider_id data current_date of
                 Inl e \<Rightarrow> Inl e
               | Inr availability \<Rightarrow>
                 if wids k \<in> set (map w_id (availabilities d))
                 then Inl (InternalError ''IntegrityError'')
                 else
                (case flush_slots (d\<lparr>availabilities := availabilities d @ [availability]\<rparr>)
                        pending of
                   Inl e \<Rightarrow> Inl e
                 | Inr d1 \<Rightarrow>
                  (case generate_appointment_slots tzs (sids k) availability slots_count
                          (av_timezone data) of
                     Inl e \<Rightarrow> Inl e
                   | Inr (new_slots, slots_created) \<Rightarrow>
                       Inr (d1, new_slots, availability, slots_created)))))"

fun create_loop ::
  "tzdb \<Rightarrow> (nat \<Rightarrow> uid) \<Rightarrow> (nat \<Rightarrow> nat \<Rightarrow> uid) \<Rightarrow> uid \<Rightarrow> availability_data \<Rightarrow>
   nat \<Rightarrow> date list \<Rightarrow> db \<Rightarrow> slot list \<Rightarrow> window list \<Rightarrow> int \<Rightarrow>
   error + (db \<times> slot list \<times> window list \<times> int)" where
  "create_loop tzs wids sids provider_id data k [] d pending created total_slots_created =
     Inr (d, pending, created, total_slots_created)"
| "create_loop tzs wids sids provider_id data k (current_date # rest) d pending created
     total_slots_created =
     (case create_for_date tzs wids sids provider_id data k current_date d pending of
        Inl e \<Rightarrow> Inl e
      | Inr (d', pending', availability, slots_created) \<Rightarrow>
          create_loop tzs wids sids provider_id data (Suc k) rest d' pending'
            (created @ [availability]) (total_slots_created + slots_created))"

record availability_result =
  r_availability_id :: uid
  r_slots_created :: int
  r_date_range_start :: date
  r_date_range_end :: date
  r_total_appointments_available :: int

text \<open>
  \<open>create_provider_availability\<close>. The conflict check reads the windows of the
  request's own \<open>date\<close>; the occurrence dates are computed after it. \<open>db.commit()\<close>
  inserts the slots still pending. With no occurrence date,
  \<open>created_availabilities[0]\<close> raises \<open>IndexError\<close>. No exception is caught: one raised
  before the commit leaves nothing stored.
\<close>

definition create_provider_availability ::
  "rrule \<Rightarrow> tzdb \<Rightarrow> (nat \<Rightarrow> uid) \<Rightarrow> (nat \<Rightarrow> nat \<Rightarrow> uid) \<Rightarrow> db \<Rightarrow> uid \<Rightarrow> availability_data \<Rightarrow>
   error + (db \<times> availability_result)" where
  "create_provider_availability rr tzs wids sids d provider_id data =
     (case get_provider_by_id d provider_id of
        None \<Rightarrow> Inl (NotFound ''Provider not found'')
      | Some prov \<Rightarrow>
     (case time_fromisoformat (av_start_time data) of
        Inl e \<Rightarrow> Inl e
      | Inr st \<Rightarrow>
     (case time_fromisoformat (av_end_time data) of
        Inl e \<Rightarrow> Inl e
      | Inr et \<Rightarrow>
     (case check_conflicts (combine (av_date data) st) (combine (av_date data) et)
             (existing_conflicts d provider_id (av_date data)) of
        Inl e \<Rightarrow> Inl e
      | Inr u \<Rightarrow>
     (case dates_to_create rr data of
        Inl e \<Rightarrow> Inl e
      | Inr dates \<Rightarrow>
     (case create_loop tzs wids sids provider_id data 0 dates d [] [] 0 of
        Inl e \<Rightarrow> Inl e
      | Inr (d1, pending, created, total_slots_created) \<Rightarrow>
     (case flush_slots d1 pending of
        Inl e \<Rightarrow> Inl e
      | Inr d' \<Rightarrow>
     (case (created, dates) of
        (first # cs, d0 # ds) \<Rightarrow>
          Inr (d', \<lparr> r_availability_id = w_id first,
                     r_slots_created = total_slots_created,
                     r_date_range_start = foldl min d0 ds,
                     r_date_range_end = foldl max d0 ds,
                     r_total_appointments_available = total_slots_created \<rparr>)
      | _ \<Rightarrow> Inl (InternalError ''IndexError'')))))))))"

section \<open>Slot update and deletion (app/crud.py)\<close>




section \<open>Search (app/crud.py)\<close>

text \<open>
  The \<open>search_criteria\<close> dictionary; the router drops the keys whose value is \<open>None\<close>.
\<close>

record search_criteria =
  sc_date :: "date option"
  sc_start_date :: "date option"
  sc_end_date :: "date option"
  sc_specialization :: "string option"
  sc_appointment_type :: "string option"
  sc_insurance_accepted :: "bool option"
  sc_max_price :: "rat option"
  sc_timezone :: "string option"

text \<open>
  The filters of the query, on a slot joined with its window and the window's provider.
  A filter guarded by \<open>if search_criteria.get(key)\<close> is skipped when the value is
  falsy (an empty string); the insurance filter is guarded by \<open>is not None\<close>. A JSON
  path on a null \<open>pricing\<close> is SQL \<open>NULL\<close> and drops the row. \<open>ilike column term\<close> is
  the database's \<open>column ILIKE '%term%'\<close>. A date compared with an instant is its
  midnight in the time zone of the database session, taken to be UTC. The price filter
  never reaches the query (see \<open>search_availability\<close>).
\<close>

definition search_match ::
  "(string \<Rightarrow> string \<Rightarrow> bool) \<Rightarrow> db \<Rightarrow> search_criteria \<Rightarrow> slot \<Rightarrow> bool" where
  "search_match ilike d c s =
     (case slot_availability d s of
        None \<Rightarrow> False
      | Some w \<Rightarrow>
     (case get_provider_by_id d (w_provider_id w) of
        None \<Rightarrow> False
      | Some p \<Rightarrow>
        s_status s = AVAILABLE \<and> p_is_active p \<and>
        (case sc_date c of
           None \<Rightarrow> True
         | Some dt \<Rightarrow> dt * 1440 \<le> s_slot_start_time s \<and> s_slot_start_time s < (dt + 1) * 1440) \<and>
        (case sc_start_date c of
           None \<Rightarrow> True
         | Some sd \<Rightarrow>
          (case sc_end_date c of
             None \<Rightarrow> True
           | Some ed \<Rightarrow>
               sd * 1440 \<le> s_slot_start_time s \<and> s_slot_start_time s < (ed + 1) * 1440)) \<and>
        (case sc_specialization c of
           None \<Rightarrow> True
         | Some sp \<Rightarrow> sp = [] \<or> ilike (p_specialization p) sp) \<and>
        (case sc_appointment_type c of
           None \<Rightarrow> True
         | Some t \<Rightarrow> t = [] \<or> s_appointment_type s = t) \<and>
        (case sc_insurance_accepted c of
           None \<Rightarrow> True
         | Some b \<Rightarrow>
          (case w_pricing w of
             None \<Rightarrow> False
           | Some pr \<Rightarrow> pr_insurance_accepted pr = Some b))))"

record provider_summary =
  ps_id :: uid
  ps_name :: string
  ps_specialization :: string
  ps_years_of_experience :: "int option"
  ps_clinic_address :: string

record slot_data =
  sd_slot_id :: uid
  sd_date :: date
  sd_start_time :: pytime
  sd_end_time :: pytime
  sd_appointment_type :: string
  sd_location :: string
  sd_pricing :: "pricing option"
  sd_special_requirements :: "string list option"

text \<open>\<open>dict.get(key, '')\<close> on the clinic address, and the provider entry of a result.\<close>

definition address_get :: "(string \<times> string) list \<Rightarrow> string \<Rightarrow> string" where
  "address_get addr k = (case map_of addr k of None \<Rightarrow> [] | Some v \<Rightarrow> v)"

definition provider_entry :: "provider \<Rightarrow> provider_summary" where
  "provider_entry p =
     \<lparr> ps_id = p_id p,
       ps_name = ''Dr. '' @ p_first_name p @ '' '' @ p_last_name p,
       ps_specialization = p_specialization p,
       ps_years_of_experience = p_years_of_experience p,
       ps_clinic_address = address_get (p_clinic_address p) ''street'' @ '', '' @
                           address_get (p_clinic_address p) ''city'' @ '', '' @
                           address_get (p_clinic_address p) ''state'' \<rparr>"

definition local_time :: "int \<Rightarrow> pytime" where
  "local_time t = \<lparr>hour = (t mod 1440) div 60, minute = t mod 60\<rparr>"

text \<open>
  The grouping loop: \<open>groups\<close> is the dictionary \<open>providers\<close> in insertion order, keyed
  by provider id.
\<close>

fun group_loop ::
  "tzdb \<Rightarrow> db \<Rightarrow> search_criteria \<Rightarrow> slot list \<Rightarrow>
   (uid \<times> provider_summary \<times> slot_data list) list \<Rightarrow>
   error + (uid \<times> provider_summary \<times> slot_data list) list" where
  "group_loop tzs d c [] groups = Inr groups"
| "group_loop tzs d c (s # rest) groups =
     (case (if s_provider_id s \<in> set (map fst groups) then Inr groups
            else (case get_provider_by_id d (s_provider_id s) of
                    None \<Rightarrow> Inl (InternalError ''AttributeError'')
                  | Some p \<Rightarrow> Inr (groups @ [(s_provider_id s, provider_entry p, [])]))) of
        Inl e \<Rightarrow> Inl e
      | Inr groups1 \<Rightarrow>
     (case tzs (case sc_timezone c of None \<Rightarrow> ''UTC'' | Some z \<Rightarrow> z) of
        None \<Rightarrow> Inl (InternalError ''UnknownTimeZoneError'')
      | Some local_tz \<Rightarrow>
     (case slot_availability d s of
        None \<Rightarrow> Inl (InternalError ''AttributeError'')
      | Some w \<Rightarrow>
       let slot_start_local = astimezone local_tz (s_slot_start_time s);
           slot_end_local = astimezone local_tz (s_slot_end_time s);
           sdata = \<lparr> sd_slot_id = s_id s,
                     sd_date = slot_start_local div 1440,
                     sd_start_time = local_time slot_start_local,
                     sd_end_time = local_time slot_end_local,
                     sd_appointment_type = s_appointment_type s,
                     sd_location = w_location w,
                     sd_pricing = w_pricing w,
                     sd_special_requirements = w_special_requirements w \<rparr>
       in group_loop tzs d c rest
            (map (\<lambda>(k, ps, sds). if k = s_provider_id s then (k, ps, sds @ [sdata])
                                  else (k, ps, sds)) groups1))))"

record search_result =
  sr_total_results :: nat
  sr_results :: "(provider_summary \<times> slot_data list) list"

text \<open>
  \<open>search_availability\<close>. The price filter is guarded by
  \<open>if search_criteria.get("max_price")\<close>, so a price of 0 is skipped like an absent
  one; for any other price the filter expression is built with \<open>.cast(float)\<close>, the
  Python type where a SQLAlchemy type is expected, and comparing it raises
  \<open>TypeError\<close> before the query is run.
\<close>

definition search_availability ::
  "(string \<Rightarrow> string \<Rightarrow> bool) \<Rightarrow> tzdb \<Rightarrow> db \<Rightarrow> search_criteria \<Rightarrow> error + search_result" where
  "search_availability ilike tzs d c =
     (if (case sc_max_price c of None \<Rightarrow> False | Some m \<Rightarrow> m \<noteq> 0)
      then Inl (InternalError ''TypeError'')
      else
     (case group_loop tzs d c (filter (search_match ilike d c) (slots d)) [] of
        Inl e \<Rightarrow> Inl e
      | Inr groups \<Rightarrow>
          Inr \<lparr> sr_total_results = length groups, sr_results = map snd groups \<rparr>))"

section \<open>Consistency of slots and appointments\<close>



section \<open>Example stores\<close>

definition ex_provider :: provider where
  "ex_provider = \<lparr> p_id = ''p1'', p_first_name = ''Ann'', p_last_name = ''Lee'',
                   p_specialization = ''cardiology'', p_years_of_experience = Some 10,
                   p_clinic_address = [(''city'', ''Boston'')], p_is_active = True \<rparr>"

definition ex_patient :: patient where
  "ex_patient = \<lparr> pt_id = ''pt1'', pt_email = ''pat@example.org'' \<rparr>"

definition ex_pricing :: pricing where
  "ex_pricing = \<lparr> pr_base_fee = Some 150, pr_insurance_accepted = Some True,
                  pr_currency = Some ''EUR'' \<rparr>"

text \<open>A window 09:00-10:00 in UTC with 30-minute slots and no break.\<close>

definition ex_window :: "uid \<Rightarrow> date \<Rightarrow> bool \<Rightarrow> int \<Rightarrow> window" where
  "ex_window k dt rec n =
     \<lparr> w_id = k, w_provider_id = ''p1'', w_date = dt,
       w_start_time = \<lparr>hour = 9, minute = 0\<rparr>, w_end_time = \<lparr>hour = 10, minute = 0\<rparr>,
       w_timezone = ''UTC'', w_is_recurring = rec, w_recurrence_pattern = None,
       w_recurrence_end_date = None, w_slot_duration = 30, w_break_duration = 0,
       w_status = AVAILABLE, w_max_appointments_per_slot = 1, w_current_appointments = n,
       w_appointment_type = CONSULTATION, w_location = ''clinic'',
       w_pricing = Some ex_pricing, w_notes = None, w_special_requirements = None \<rparr>"

definition ex_slot :: "uid \<Rightarrow> uid \<Rightarrow> instant \<Rightarrow> slot" where
  "ex_slot k wk t =
     \<lparr> s_id = k, s_availability_id = wk, s_provider_id = ''p1'',
       s_slot_start_time = t, s_slot_end_time = t + 30, s_status = AVAILABLE,
       s_patient_id = None, s_appointment_type = ''consultation'',
       s_booking_reference = None \<rparr>"

definition ex_booked :: "slot \<Rightarrow> slot" where
  "ex_booked s = s\<lparr>s_status := BOOKED, s_patient_id := Some ''pt1'',
                   s_booking_reference := Some ''APT-0000A001''\<rparr>"

definition ex_appointment :: appointment where
  "ex_appointment =
     \<lparr> a_id = ''a1'', a_slot_id = ''s1'', a_provider_id = ''p1'', a_patient_id = ''pt1'',
       a_appointment_type = CONSULTATION, a_status = SCHEDULED, a_payment_status = PENDING,
       a_scheduled_start_time = 14940, a_scheduled_end_time = 14970,
       a_location = ''clinic'', a_contact_phone = None, a_contact_email = None,
       a_symptoms = None, a_base_fee = 150, a_insurance_coverage = 0,
       a_patient_payment = 0, a_currency = ''EUR'',
       a_booking_reference = ''APT-0000A001'', a_cancellation_reason = None,
       a_cancelled_by = None, a_cancelled_at = None \<rparr>"

definition ex_request :: appointment_data where
  "ex_request = \<lparr> ad_slot_id = ''s1'', ad_appointment_type = CONSULTATION,
                  ad_symptoms = None, ad_contact_phone = None, ad_contact_email = None,
                  ad_insurance_coverage = None, ad_patient_payment = None \<rparr>"

text \<open>
  \<open>ex_db0\<close>: one provider, one patient, windows \<open>w1\<close> (day 10, slots \<open>s1\<close>, \<open>s2\<close>) and
  \<open>w2\<close> (day 11, slot \<open>s3\<close>), nothing booked. \<open>ex_db1\<close>: the same after the patient
  booked \<open>s1\<close> as appointment \<open>a1\<close>.
\<close>

definition ex_db0 :: db where
  "ex_db0 = \<lparr> providers = [ex_provider], patients = [ex_patient],
              availabilities = [ex_window ''w1'' 10 False 0, ex_window ''w2'' 11 False 0],
              slots = [ex_slot ''s1'' ''w1'' 14940, ex_slot ''s2'' ''w1'' 14970,
                       ex_slot ''s3'' ''w2'' 16380],
              appointments = [] \<rparr>"

definition ex_db1 :: db where
  "ex_db1 = \<lparr> providers = [ex_provider], patients = [ex_patient],
              availabilities = [ex_window ''w1'' 10 False 1, ex_window ''w2'' 11 False 0],
              slots = [ex_booked (ex_slot ''s1'' ''w1'' 14940), ex_slot ''s2'' ''w1'' 14970,
                       ex_slot ''s3'' ''w2'' 16380],
              appointments = [ex_appointment] \<rparr>"

text \<open>
  An availability request for day 9, 09:30-10:30 in UTC, 30-minute slots without break,
  repeated daily until day 10. \<open>ex_rrule\<close> is dateutil's expansion of a daily rule,
  every date from the first to the last (the examples name no other frequency);
  \<open>ex_wids\<close> and \<open>ex_sids\<close> are fresh primary keys for two windows of two slots.
\<close>

definition ex_avail :: availability_data where
  "ex_avail = \<lparr> av_date = 9,
                av_start_time = \<lparr>hour = 9, minute = 30\<rparr>,
                av_end_time = \<lparr>hour = 10, minute = 30\<rparr>,
                av_timezone = ''UTC'', av_slot_duration = 30, av_break_duration = 0,
                av_is_recurring = True, av_recurrence_pattern = Some ''daily'',
                av_recurrence_end_date = Some 10, av_max_appointments_per_slot = None,
                av_appointment_type = CONSULTATION, av_location = ''clinic'',
                av_pricing = Some ex_pricing, av_notes = None,
                av_special_requirements = None \<rparr>"

definition ex_rrule :: rrule where
  "ex_rrule f dtstart until = [dtstart..until]"

definition ex_wids :: "nat \<Rightarrow> uid" where
  "ex_wids k = (if k = 0 then ''n0'' else ''n1'')"

definition ex_sids :: "nat \<Rightarrow> nat \<Rightarrow> uid" where
  "ex_sids k i = (if k = 0 then (if i = 0 then ''n0-0'' else ''n0-1'')
                  else (if i = 0 then ''n1-0'' else ''n1-1''))"

text \<open>
  \<open>ex_db1c\<close>: \<open>ex_db1\<close> after appointment \<open>a1\<close> was cancelled. \<open>ex_db2\<close>: \<open>ex_db1\<close> with
  an earlier appointment \<open>a0\<close> of the same slot, cancelled before \<open>a1\<close> was booked.
\<close>

definition ex_cancelled :: appointment where
  "ex_cancelled = ex_appointment\<lparr>a_status := CANCELLED, a_cancellation_reason := Some ''ill'',
                    a_cancelled_by := Some ''patient'', a_cancelled_at := Some 20000\<rparr>"

definition ex_db1c :: db where
  "ex_db1c = ex_db0\<lparr>appointments := [ex_cancelled]\<rparr>"

definition ex_db2 :: db where
  "ex_db2 = ex_db1\<lparr>appointments :=
              [ex_cancelled\<lparr>a_id := ''a0'', a_booking_reference := ''APT-0000A000''\<rparr>,
               ex_appointment]\<rparr>"

text \<open>
  \<open>ex_db0f\<close>: \<open>ex_db0\<close> where the pricing of window \<open>w1\<close> has the fee 0.125 and the
  currency "USD " (with a trailing space). \<open>ex_db0r\<close>: \<open>ex_db0\<close> with both windows marked
  recurring.
\<close>

definition ex_db0f :: db where
  "ex_db0f = ex_db0\<lparr>availabilities :=
               [(ex_window ''w1'' 10 False 0)
                  \<lparr>w_pricing := Some \<lparr> pr_base_fee = Some (1 / 8), pr_insurance_accepted = None,
                                        pr_currency = Some ''USD '' \<rparr>\<rparr>,
                ex_window ''w2'' 11 False 0]\<rparr>"

definition ex_db0r :: db where
  "ex_db0r = ex_db0\<lparr>availabilities :=
               [ex_window ''w1'' 10 True 0, ex_window ''w2'' 11 True 0]\<rparr>"

text \<open>
  A timezone whose clocks go forward by one hour at 10:00 of day 9 (the instant 13560):
  the wall-clock times from 10:00 to 11:00 do not exist, and \<open>tz.localize\<close> gives them
  the offset in force before the change, as pytz does with \<open>is_dst=False\<close>. \<open>ex_tzs\<close>
  knows this zone and UTC.
\<close>

definition ex_tz_gap :: tzinfo where
  "ex_tz_gap = \<lparr> utcoffset_local = (\<lambda>naive. if naive < 13620 then 0 else 60),
                  utcoffset_utc = (\<lambda>t. if t < 13560 then 0 else 60) \<rparr>"

definition ex_tzs :: tzdb where
  "ex_tzs name = (if name = ''UTC'' then Some UTC
                  else if name = ''Gap/Zone'' then Some ex_tz_gap else None)"

text \<open>Search criteria with no key set.\<close>

definition ex_criteria :: search_criteria where
  "ex_criteria = \<lparr> sc_date = None, sc_start_date = None, sc_end_date = None,
                   sc_specialization = None, sc_appointment_type = None,
                   sc_insurance_accepted = None, sc_max_price = None, sc_timezone = None \<rparr>"

lemmas ex_defs = ex_provider_def ex_patient_def ex_pricing_def ex_window_def ex_slot_def
  ex_booked_def ex_appointment_def ex_request_def ex_db0_def ex_db1_def ex_cancelled_def
  ex_db1c_def ex_db2_def ex_avail_def ex_rrule_def ex_wids_def ex_sids_def ex_db0f_def
  ex_db0r_def ex_tz_gap_def ex_tzs_def ex_criteria_def

lemmas access_defs = get_provider_by_id_def get_patient_by_id_def get_appointment_by_id_def
  query_slot_def slot_availability_def appointment_slot_def set_slot_def
  set_availability_def set_appointment_def

lemmas column_defs = numeric_10_2_def varchar_def varchar_opt_def int4_def
  recurrence_pattern_column_def

section \<open>Auxiliary lemmas\<close>

lemma find_map_upd:
  assumes "\<And>x. key (f x) = key x"
  shows "find (\<lambda>x. key x = k) (map (\<lambda>x. if key x = k then f x else x) xs)
         = map_option f (find (\<lambda>x. key x = k) xs)"
  using assms by (induction xs) auto

lemma find_map_other:
  assumes "\<And>x. key (f x) = key x" and "k' \<noteq> k"
  shows "find (\<lambda>x. key x = k') (map (\<lambda>x. if key x = k then f x else x) xs)
         = find (\<lambda>x. key x = k') xs"
  using assms by (induction xs) auto

lemma find_key_Some:
  "find (\<lambda>x. key x = k) xs = Some y \<Longrightarrow> y \<in> set xs \<and> key y = k"
  by (induction xs) (auto split: if_splits)

lemma find_key_distinct:
  "distinct (map key xs) \<Longrightarrow> y \<in> set xs \<Longrightarrow> find (\<lambda>x. key x = key y) xs = Some y"
  by (induction xs) (auto simp: rev_image_eqI)

section \<open>Cancellation\<close>

text \<open>
  Claim C2. A cancellation of an existing appointment (whose slot and window rows
  exist, as the foreign keys require) is rejected exactly when the appointment is
  already CANCELLED or COMPLETED. Otherwise it succeeds: the appointment becomes
  CANCELLED with the reason, the actor and the timestamp recorded; its slot becomes
  AVAILABLE with patient and booking reference cleared; and the window's
  \<open>current_appointments\<close> becomes \<open>max 0 (n - 1)\<close>, so it never goes negative.
\<close>

theorem cancel_appointment_correct:
  assumes "get_appointment_by_id d aid = Some appt"
    and "appointment_slot d appt = Some sl"
    and "slot_availability d sl = Some w"
  shows "if a_status appt = CANCELLED \<or> a_status appt = COMPLETED
         then cancel_appointment now d aid reason who
                = Inl (BadRequest ''Appointment cannot be cancelled'')
         else (\<exists>d' a' sl' w'.
                 cancel_appointment now d aid reason who = Inr (d', Some a') \<and>
                 get_appointment_by_id d' aid = Some a' \<and>
                 a' = appt\<lparr>a_status := CANCELLED, a_cancellation_reason := Some reason,
                           a_cancelled_by := Some who, a_cancelled_at := Some now\<rparr> \<and>
                 appointment_slot d' a' = Some sl' \<and>
                 sl' = sl\<lparr>s_status := AVAILABLE, s_patient_id := None,
                          s_booking_reference := None\<rparr> \<and>
                 slot_availability d' sl' = Some w' \<and>
                 w' = w\<lparr>w_current_appointments := max 0 (w_current_appointments w - 1)\<rparr> \<and>
                 0 \<le> w_current_appointments w')"
proof -
  have k: "s_id sl = a_slot_id appt"
    using assms(2) find_key_Some[of s_id "a_slot_id appt" "slots d" sl]
    by (simp add: appointment_slot_def query_slot_def)
  have kw: "w_id w = s_availability_id sl"
    using assms(3) find_key_Some[of w_id "s_availability_id sl" "availabilities d" w]
    by (simp add: slot_availability_def)
  show ?thesis
    using assms k kw
    by (simp add: cancel_appointment_def Let_def get_appointment_by_id_def
        appointment_slot_def query_slot_def slot_availability_def
        set_appointment_def set_slot_def set_availability_def find_map_upd)
qed

theorem cancel_appointment_correct_witness:
  "get_appointment_by_id ex_db1 ''a1'' = Some ex_appointment \<and>
   appointment_slot ex_db1 ex_appointment = Some (ex_booked (ex_slot ''s1'' ''w1'' 14940)) \<and>
   slot_availability ex_db1 (ex_booked (ex_slot ''s1'' ''w1'' 14940))
     = Some (ex_window ''w1'' 10 False 1) \<and>
   (\<exists>d' a'. cancel_appointment 20000 ex_db1 ''a1'' ''ill'' ''patient'' = Inr (d', Some a') \<and>
            a_status a' = CANCELLED \<and> a_cancelled_by a' = Some ''patient'' \<and>
            map s_status (slots d') = [AVAILABLE, AVAILABLE, AVAILABLE] \<and>
            map w_current_appointments (availabilities d') = [0, 0])"
proof -
  have h1: "get_appointment_by_id ex_db1 ''a1'' = Some ex_appointment"
    by (simp add: ex_defs access_defs)
  have h2: "appointment_slot ex_db1 ex_appointment
              = Some (ex_booked (ex_slot ''s1'' ''w1'' 14940))"
    by (simp add: ex_defs access_defs)
  have h3: "slot_availability ex_db1 (ex_booked (ex_slot ''s1'' ''w1'' 14940))
              = Some (ex_window ''w1'' 10 False 1)"
    by (simp add: ex_defs access_defs)
  have st: "\<not> (a_status ex_appointment = CANCELLED \<or> a_status ex_appointment = COMPLETED)"
    by (simp add: ex_defs)
  from cancel_appointment_correct[OF h1 h2 h3, of 20000 "''ill''" "''patient''"] st
  obtain d' a' where
    r: "cancel_appointment 20000 ex_db1 ''a1'' ''ill'' ''patient'' = Inr (d', Some a')"
    and a: "a' = ex_appointment\<lparr>a_status := CANCELLED, a_cancellation_reason := Some ''ill'',
                 a_cancelled_by := Some ''patient'', a_cancelled_at := Some 20000\<rparr>"
    by auto
  have e: "cancel_appointment 20000 ex_db1 ''a1'' ''ill'' ''patient''
             = Inr (d', Some a') \<Longrightarrow>
           map s_status (slots d') = [AVAILABLE, AVAILABLE, AVAILABLE] \<and>
           map w_current_appointments (availabilities d') = [0, 0]"
    by (auto simp add: cancel_appointment_def Let_def ex_defs access_defs)
  show ?thesis using h1 h2 h3 r a e by simp
qed











lemma reschedule_appointment_Inr:
  assumes "reschedule_appointment d aid n why = Inr (d', r)"
  shows "(get_appointment_by_id d aid = None \<and> d' = d \<and> r = None) \<or>
         (\<exists>appt ns os.
            get_appointment_by_id d aid = Some appt \<and>
            a_status appt \<noteq> CANCELLED \<and> a_status appt \<noteq> COMPLETED \<and>
            query_slot d n = Some ns \<and> s_status ns = AVAILABLE \<and>
            appointment_slot d appt = Some os \<and>
            d' = set_appointment aid
                   (\<lambda>a. a\<lparr>a_slot_id := n,
                           a_scheduled_start_time := s_slot_start_time ns,
                           a_scheduled_end_time := s_slot_end_time ns,
                           a_status := RESCHEDULED\<rparr>)
                   (set_slot (s_id ns)
                     (\<lambda>s. s\<lparr>s_status := BOOKED, s_patient_id := Some (a_patient_id appt),
                             s_booking_reference := Some (a_booking_reference appt)\<rparr>)
                     (set_slot (s_id os)
                       (\<lambda>s. s\<lparr>s_status := AVAILABLE, s_patient_id := None,
                               s_booking_reference := None\<rparr>) d)) \<and>
            r = get_appointment_by_id d' aid)"
proof (cases "get_appointment_by_id d aid")
  case None
  with assms show ?thesis by (simp add: reschedule_appointment_def)
next
  case (Some appt)
  note appt = this
  show ?thesis
  proof (cases "a_status appt = CANCELLED \<or> a_status appt = COMPLETED")
    case True
    with assms appt show ?thesis by (simp add: reschedule_appointment_def)
  next
    case False
    note st = this
    show ?thesis
    proof (cases "query_slot d n")
      case None
      with assms appt st show ?thesis by (simp add: reschedule_appointment_def)
    next
      case (Some ns)
      note ns = this
      show ?thesis
      proof (cases "s_status ns = AVAILABLE")
        case False
        with assms appt st ns show ?thesis by (simp add: reschedule_appointment_def)
      next
        case True
        note av = this
        show ?thesis
        proof (cases "appointment_slot d appt")
          case None
          with assms appt st ns av show ?thesis by (simp add: reschedule_appointment_def)
        next
          case (Some os)
          with assms appt st ns av show ?thesis
            by (auto simp add: reschedule_appointment_def Let_def split: if_splits)
        qed
      qed
    qed
  qed
qed


section \<open>Slot deletion and availability creation keep the store consistent\<close>





lemma flush_slots_Inr:
  assumes "flush_slots d pending = Inr d'"
  shows "d' = d\<lparr>slots := slots d @ pending\<rparr> \<and> distinct (map s_id pending) \<and>
         (\<forall>s \<in> set pending. s_id s \<notin> set (map s_id (slots d)))"
  using assms by (simp add: flush_slots_def split: if_splits)


lemma make_slot_Inr:
  assumes "make_slot tz w st k i = Inr s"
  shows "s_status s = AVAILABLE \<and> s_id s = k \<and> s_availability_id s = w_id w \<and>
         s_provider_id s = w_provider_id w"
  using assms by (auto simp add: make_slot_def Let_def split: sum.splits)

lemma slot_loop_Inr:
  assumes "slot_loop tz w st ids is pending n = Inr (pending', n')"
  shows "\<exists>new. pending' = pending @ new \<and> n' = n + int (length is) \<and>
           list_all2 (\<lambda>i s. make_slot tz w st (ids i) i = Inr s) is new"
  using assms
proof (induction "is" arbitrary: pending n)
  case Nil
  then show ?case by simp
next
  case (Cons i rest)
  from Cons.prems obtain s where s: "make_slot tz w st (ids i) i = Inr s"
    and r: "slot_loop tz w st ids rest (pending @ [s]) (n + 1) = Inr (pending', n')"
    by (auto split: sum.splits)
  from Cons.IH[OF r] obtain new where
    new: "pending' = (pending @ [s]) @ new" "n' = n + 1 + int (length rest)"
      "list_all2 (\<lambda>i s. make_slot tz w st (ids i) i = Inr s) rest new"
    by blast
  have "pending' = pending @ (s # new)" using new(1) by simp
  moreover have "n' = n + int (length (i # rest))" using new(2) by simp
  moreover have "list_all2 (\<lambda>i s. make_slot tz w st (ids i) i = Inr s) (i # rest) (s # new)"
    using s new(3) by simp
  ultimately show ?case by blast
qed

lemma generate_appointment_slots_Inr:
  assumes "generate_appointment_slots tzs ids w c name = Inr (new, n)"
  shows "\<exists>st. time_fromisoformat (w_start_time w) = Inr st \<and> n = int (nat c) \<and>
           list_all2 (\<lambda>i s. make_slot (case tzs name of None \<Rightarrow> UTC | Some z \<Rightarrow> z) w st (ids i) i
                              = Inr s) [0..<nat c] new"
proof -
  from assms obtain st where st: "time_fromisoformat (w_start_time w) = Inr st"
    and l: "slot_loop (case tzs name of None \<Rightarrow> UTC | Some z \<Rightarrow> z) w st ids [0..<nat c] [] 0
              = Inr (new, n)"
    by (auto simp add: generate_appointment_slots_def Let_def split: sum.splits)
  from slot_loop_Inr[OF l] st show ?thesis by auto
qed

lemma list_all2_make_slot:
  assumes "list_all2 (\<lambda>i s. make_slot tz w st (ids i) i = Inr s) is new"
  shows "length new = length is \<and>
         (\<forall>s \<in> set new. s_status s = AVAILABLE \<and> s_availability_id s = w_id w)"
proof -
  have l: "length new = length is" using assms by (simp add: list_all2_lengthD)
  have "\<forall>s \<in> set new. s_status s = AVAILABLE \<and> s_availability_id s = w_id w"
  proof
    fix s assume "s \<in> set new"
    then obtain j where j: "j < length new" "new ! j = s" by (auto simp add: in_set_conv_nth)
    with assms l have "make_slot tz w st (ids (is ! j)) (is ! j) = Inr s"
      by (auto simp add: list_all2_conv_all_nth)
    from make_slot_Inr[OF this] show "s_status s = AVAILABLE \<and> s_availability_id s = w_id w"
      by simp
  qed
  with l show ?thesis by simp
qed

lemma new_availability_Inr:
  assumes "new_availability k pid data dt = Inr w"
  shows "w_id w = k \<and> w_provider_id w = pid \<and> w_date w = dt \<and>
         w_start_time w = av_start_time data \<and> w_end_time w = av_end_time data \<and>
         w_slot_duration w = av_slot_duration data \<and>
         w_break_duration w = av_break_duration data \<and> w_status w = AVAILABLE \<and>
         w_is_recurring w = av_is_recurring data \<and>
         recurrence_pattern_column (av_recurrence_pattern data) = Inr (w_recurrence_pattern w) \<and>
         varchar 50 (av_timezone data) = Inr (w_timezone w)"
  using assms by (auto simp add: new_availability_def Let_def split: sum.splits if_splits)

text \<open>What one successful round of the loop over the occurrence dates does.\<close>

lemma create_for_date_Inr:
  assumes "create_for_date tzs wids sids pid data k dt d pending = Inr (d1, new, w, n)"
  shows "time_fromisoformat (av_start_time data) = Inr (av_start_time data) \<and>
         time_fromisoformat (av_end_time data) = Inr (av_end_time data) \<and>
         0 < av_slot_duration data + av_break_duration data \<and>
         new_availability (wids k) pid data dt = Inr w \<and>
         wids k \<notin> set (map w_id (availabilities d)) \<and>
         flush_slots (d\<lparr>availabilities := availabilities d @ [w]\<rparr>) pending = Inr d1 \<and>
         generate_appointment_slots tzs (sids k) w
           ((minute_of_day (av_end_time data) - minute_of_day (av_start_time data))
              div (av_slot_duration data + av_break_duration data))
           (av_timezone data) = Inr (new, n)"
proof -
  from assms obtain st where st: "time_fromisoformat (av_start_time data) = Inr st"
    by (auto simp add: create_for_date_def split: sum.splits)
  from assms st obtain et where et: "time_fromisoformat (av_end_time data) = Inr et"
    by (auto simp add: create_for_date_def split: sum.splits)
  have st': "st = av_start_time data"
    using st by (auto simp add: time_fromisoformat_def mk_time_def split: if_splits)
  have et': "et = av_end_time data"
    using et by (auto simp add: time_fromisoformat_def mk_time_def split: if_splits)
  from assms st et show ?thesis
    unfolding st' et'
    by (auto simp add: create_for_date_def Let_def minute_of_day_def
        split: sum.splits if_splits)
qed

lemma create_for_date_store:
  assumes "create_for_date tzs wids sids pid data k dt d pending = Inr (d1, new, w, n)"
  shows "slots d1 = slots d @ pending \<and> appointments d1 = appointments d \<and>
         availabilities d1 = availabilities d @ [w] \<and> providers d1 = providers d \<and>
         patients d1 = patients d \<and>
         distinct (map s_id pending) \<and>
         (\<forall>s \<in> set pending. s_id s \<notin> set (map s_id (slots d))) \<and>
         n = int (length new) \<and>
         length new = nat ((minute_of_day (av_end_time data) - minute_of_day (av_start_time data))
                             div (av_slot_duration data + av_break_duration data)) \<and>
         (\<forall>s \<in> set new. s_status s = AVAILABLE \<and> s_availability_id s = w_id w) \<and>
         w_id w = wids k \<and> w_date w = dt"
proof -
  let ?c = "(minute_of_day (av_end_time data) - minute_of_day (av_start_time data))
              div (av_slot_duration data + av_break_duration data)"
  from create_for_date_Inr[OF assms] have
    w: "new_availability (wids k) pid data dt = Inr w"
    and f: "flush_slots (d\<lparr>availabilities := availabilities d @ [w]\<rparr>) pending = Inr d1"
    and g: "generate_appointment_slots tzs (sids k) w ?c (av_timezone data) = Inr (new, n)"
    by simp_all
  from flush_slots_Inr[OF f] have
    d1: "d1 = d\<lparr>availabilities := availabilities d @ [w], slots := slots d @ pending\<rparr>"
    and p: "distinct (map s_id pending)"
      "\<forall>s \<in> set pending. s_id s \<notin> set (map s_id (slots d))"
    by simp_all
  from generate_appointment_slots_Inr[OF g] obtain st where
    n: "n = int (nat ?c)"
    and l: "list_all2 (\<lambda>i s. make_slot (case tzs (av_timezone data) of None \<Rightarrow> UTC | Some z \<Rightarrow> z)
                                w st (sids k i) i = Inr s) [0..<nat ?c] new"
    by blast
  from list_all2_make_slot[OF l] have
    len: "length new = nat ?c"
    and av: "\<forall>s \<in> set new. s_status s = AVAILABLE \<and> s_availability_id s = w_id w"
    by simp_all
  from new_availability_Inr[OF w] have wk: "w_id w = wids k" "w_date w = dt" by simp_all
  show ?thesis using d1 p n len av wk by simp
qed


text \<open>The counters of the loop over the occurrence dates.\<close>

lemma create_loop_count:
  assumes "create_loop tzs wids sids pid data k dates d pending created tot
             = Inr (d', pending', created', tot')"
  shows "tot' = tot + int (length dates) *
                  int (nat ((minute_of_day (av_end_time data) - minute_of_day (av_start_time data))
                              div (av_slot_duration data + av_break_duration data))) \<and>
         length created' = length created + length dates \<and>
         length (availabilities d') = length (availabilities d) + length dates \<and>
         length (slots d') + length pending'
           = length (slots d) + length pending + length dates *
               nat ((minute_of_day (av_end_time data) - minute_of_day (av_start_time data))
                      div (av_slot_duration data + av_break_duration data)) \<and>
         (dates \<noteq> [] \<longrightarrow>
            time_fromisoformat (av_start_time data) = Inr (av_start_time data) \<and>
            time_fromisoformat (av_end_time data) = Inr (av_end_time data) \<and>
            0 < av_slot_duration data + av_break_duration data)"
  using assms
proof (induction dates arbitrary: k d pending created tot)
  case Nil
  then show ?case by simp
next
  case (Cons dt rest)
  let ?c = "nat ((minute_of_day (av_end_time data) - minute_of_day (av_start_time data))
                   div (av_slot_duration data + av_break_duration data))"
  from Cons.prems(1) obtain d1 p1 w n where
    c: "create_for_date tzs wids sids pid data k dt d pending = Inr (d1, p1, w, n)"
    and l: "create_loop tzs wids sids pid data (Suc k) rest d1 p1 (created @ [w]) (tot + n)
              = Inr (d', pending', created', tot')"
    by (auto split: sum.splits)
  from create_for_date_store[OF c] have
    s1: "slots d1 = slots d @ pending" and w1: "availabilities d1 = availabilities d @ [w]"
    and n: "n = int (length p1)" and len: "length p1 = ?c"
    by simp_all
  from create_for_date_Inr[OF c] have v:
    "time_fromisoformat (av_start_time data) = Inr (av_start_time data)"
    "time_fromisoformat (av_end_time data) = Inr (av_end_time data)"
    "0 < av_slot_duration data + av_break_duration data"
    by simp_all
  from Cons.IH[OF l] have
    r: "tot' = tot + n + int (length rest) * int ?c"
       "length created' = length (created @ [w]) + length rest"
       "length (availabilities d') = length (availabilities d1) + length rest"
       "length (slots d') + length pending' = length (slots d1) + length p1 + length rest * ?c"
    by simp_all
  have t: "tot' = tot + int (length (dt # rest)) * int ?c"
    using r(1) n len by (simp add: algebra_simps)
  have c': "length created' = length created + length (dt # rest)" using r(2) by simp
  have w': "length (availabilities d') = length (availabilities d) + length (dt # rest)"
    using r(3) w1 by simp
  have s': "length (slots d') + length pending'
              = length (slots d) + length pending + length (dt # rest) * ?c"
    using r(4) s1 len by simp
  show ?case using t c' w' s' v by blast
qed

lemma create_provider_availability_Inr:
  assumes "create_provider_availability rr tzs wids sids d pid data = Inr (d', res)"
  shows "\<exists>prov dates d1 pending created.
           get_provider_by_id d pid = Some prov \<and>
           time_fromisoformat (av_start_time data) = Inr (av_start_time data) \<and>
           time_fromisoformat (av_end_time data) = Inr (av_end_time data) \<and>
           check_conflicts (combine (av_date data) (av_start_time data))
             (combine (av_date data) (av_end_time data))
             (existing_conflicts d pid (av_date data)) = Inr () \<and>
           dates_to_create rr data = Inr dates \<and> dates \<noteq> [] \<and>
           create_loop tzs wids sids pid data 0 dates d [] [] 0
             = Inr (d1, pending, created, r_slots_created res) \<and>
           flush_slots d1 pending = Inr d' \<and>
           r_total_appointments_available res = r_slots_created res"
proof -
  from assms obtain prov where prov: "get_provider_by_id d pid = Some prov"
    by (auto simp add: create_provider_availability_def split: option.splits)
  from assms prov obtain st where st: "time_fromisoformat (av_start_time data) = Inr st"
    by (auto simp add: create_provider_availability_def split: sum.splits)
  from assms prov st obtain et where et: "time_fromisoformat (av_end_time data) = Inr et"
    by (auto simp add: create_provider_availability_def split: sum.splits)
  have st': "st = av_start_time data"
    using st by (auto simp add: time_fromisoformat_def mk_time_def split: if_splits)
  have et': "et = av_end_time data"
    using et by (auto simp add: time_fromisoformat_def mk_time_def split: if_splits)
  from assms prov st et have cc: "check_conflicts (combine (av_date data) st)
             (combine (av_date data) et) (existing_conflicts d pid (av_date data)) = Inr ()"
    by (auto simp add: create_provider_availability_def split: sum.splits)
  from assms prov st et cc obtain dates where dates: "dates_to_create rr data = Inr dates"
    by (auto simp add: create_provider_availability_def split: sum.splits)
  from assms prov st et cc dates obtain d1 pending created tot where
    loop: "create_loop tzs wids sids pid data 0 dates d [] [] 0 = Inr (d1, pending, created, tot)"
    by (auto simp add: create_provider_availability_def split: sum.splits)
  from assms prov st et cc dates loop have fl: "flush_slots d1 pending = Inr d'"
    by (auto simp add: create_provider_availability_def split: sum.splits list.splits)
  from assms prov st et cc dates loop fl have
    res: "dates \<noteq> []" "r_slots_created res = tot" "r_total_appointments_available res = tot"
    by (auto simp add: create_provider_availability_def split: sum.splits list.splits)
  show ?thesis using prov st et cc dates loop fl res unfolding st' et' by simp
qed












section \<open>Booking\<close>




section \<open>Rescheduling\<close>

text \<open>
  Claim C3. Appointment \<open>a1\<close> holds slot \<open>s1\<close> of window \<open>w1\<close>, whose counter is 1;
  rescheduling it to slot \<open>s3\<close> of window \<open>w2\<close> succeeds, frees \<open>s1\<close> and books \<open>s3\<close>,
  but leaves both counters as they were: \<open>w1\<close> still counts 1 with no slot booked and
  \<open>w2\<close> counts 0 with one slot booked. \<open>reschedule_appointment\<close> never writes
  \<open>current_appointments\<close>, which \<open>cancel_appointment\<close> and \<open>create_appointment\<close> do.
\<close>

theorem reschedule_keeps_counters:
  "(case reschedule_appointment ex_db1 ''a1'' ''s3'' None of
      Inl e \<Rightarrow> False
    | Inr (d', r) \<Rightarrow>
        map_option a_slot_id r = Some ''s3'' \<and>
        map_option a_status r = Some RESCHEDULED \<and>
        map s_status (slots d') = [AVAILABLE, AVAILABLE, BOOKED] \<and>
        map s_booking_reference (slots d') = [None, None, Some ''APT-0000A001''] \<and>
        map w_current_appointments (availabilities d') = [1, 0] \<and>
        map w_current_appointments (availabilities ex_db1) = [1, 0])"
  by (simp add: reschedule_appointment_def slot_reference_free_def Let_def ex_defs
      access_defs)

text \<open>
  Claim C10 (as amended). When the slot an appointment is bound to is BOOKED, a
  reschedule naming that same slot is rejected with status 400 and returns no store:
  as "Appointment cannot be rescheduled" when the appointment is CANCELLED or COMPLETED,
  as "New appointment slot is not available" otherwise. Hence every successful
  reschedule binds the appointment to a slot other than its previous one.
\<close>

theorem reschedule_same_slot_rejected:
  assumes "get_appointment_by_id d aid = Some appt"
    and "appointment_slot d appt = Some sl"
    and "s_status sl = BOOKED"
  shows "reschedule_appointment d aid (a_slot_id appt) why
           = Inl (BadRequest (if a_status appt = CANCELLED \<or> a_status appt = COMPLETED
                              then ''Appointment cannot be rescheduled''
                              else ''New appointment slot is not available'')) \<and>
         (\<forall>n d' r. reschedule_appointment d aid n why = Inr (d', r) \<longrightarrow>
            n \<noteq> a_slot_id appt \<and> map_option a_slot_id r = Some n)"
proof (rule conjI)
  show "reschedule_appointment d aid (a_slot_id appt) why
           = Inl (BadRequest (if a_status appt = CANCELLED \<or> a_status appt = COMPLETED
                              then ''Appointment cannot be rescheduled''
                              else ''New appointment slot is not available''))"
    using assms by (simp add: reschedule_appointment_def appointment_slot_def)
next
  show "\<forall>n d' r. reschedule_appointment d aid n why = Inr (d', r) \<longrightarrow>
            n \<noteq> a_slot_id appt \<and> map_option a_slot_id r = Some n"
  proof (intro allI impI)
  fix n d' r assume ok: "reschedule_appointment d aid n why = Inr (d', r)"
  from reschedule_appointment_Inr[OF ok]
  show "n \<noteq> a_slot_id appt \<and> map_option a_slot_id r = Some n"
  proof (elim disjE exE conjE)
    assume "get_appointment_by_id d aid = None"
    with assms(1) show ?thesis by simp
  next
    fix appt' ns os
    assume g: "get_appointment_by_id d aid = Some appt'"
      and q: "query_slot d n = Some ns" "s_status ns = AVAILABLE"
      and d': "d' = set_appointment aid
                   (\<lambda>a. a\<lparr>a_slot_id := n,
                           a_scheduled_start_time := s_slot_start_time ns,
                           a_scheduled_end_time := s_slot_end_time ns,
                           a_status := RESCHEDULED\<rparr>)
                   (set_slot (s_id ns)
                     (\<lambda>s. s\<lparr>s_status := BOOKED, s_patient_id := Some (a_patient_id appt'),
                             s_booking_reference := Some (a_booking_reference appt')\<rparr>)
                     (set_slot (s_id os)
                       (\<lambda>s. s\<lparr>s_status := AVAILABLE, s_patient_id := None,
                               s_booking_reference := None\<rparr>) d))"
      and r: "r = get_appointment_by_id d' aid"
    have n: "n \<noteq> a_slot_id appt"
    proof
      assume "n = a_slot_id appt"
      with q(1) assms(2) have "ns = sl" by (simp add: appointment_slot_def)
      with q(2) assms(3) show False by simp
    qed
    have "get_appointment_by_id d' aid
            = map_option (\<lambda>a. a\<lparr>a_slot_id := n,
                           a_scheduled_start_time := s_slot_start_time ns,
                           a_scheduled_end_time := s_slot_end_time ns,
                           a_status := RESCHEDULED\<rparr>) (get_appointment_by_id d aid)"
      by (simp add: d' get_appointment_by_id_def set_appointment_def set_slot_def
          find_map_upd)
    with g r have "map_option a_slot_id r = Some n" by simp
    with n show ?thesis by simp
  qed
  qed
qed

theorem reschedule_same_slot_rejected_witness:
  "get_appointment_by_id ex_db1 ''a1'' = Some ex_appointment \<and>
   appointment_slot ex_db1 ex_appointment = Some (ex_booked (ex_slot ''s1'' ''w1'' 14940)) \<and>
   s_status (ex_booked (ex_slot ''s1'' ''w1'' 14940)) = BOOKED \<and>
   reschedule_appointment ex_db1 ''a1'' ''s1'' None
     = Inl (BadRequest ''New appointment slot is not available'')"
proof -
  have h1: "get_appointment_by_id ex_db1 ''a1'' = Some ex_appointment"
    by (simp add: ex_defs access_defs)
  have h2: "appointment_slot ex_db1 ex_appointment
              = Some (ex_booked (ex_slot ''s1'' ''w1'' 14940))"
    by (simp add: ex_defs access_defs)
  have h3: "s_status (ex_booked (ex_slot ''s1'' ''w1'' 14940)) = BOOKED"
    by (simp add: ex_defs)
  from reschedule_same_slot_rejected[OF h1 h2 h3, of None]
  have "reschedule_appointment ex_db1 ''a1'' ''s1'' None
          = Inl (BadRequest ''New appointment slot is not available'')"
    by (simp add: ex_appointment_def)
  with h1 h2 h3 show ?thesis by simp
qed

text \<open>
  The claim as stated fails for an appointment that is already cancelled: in \<open>ex_db2\<close>
  the cancelled appointment \<open>a0\<close> is bound to slot \<open>s1\<close>, which is BOOKED (by \<open>a1\<close>);
  rescheduling \<open>a0\<close> to \<open>s1\<close> is rejected by the status check, with another detail than
  "not available".
\<close>

theorem reschedule_cancelled_counterexample:
  "map_option a_status (get_appointment_by_id ex_db2 ''a0'') = Some CANCELLED \<and>
   map_option s_status (query_slot ex_db2 ''s1'') = Some BOOKED \<and>
   map_option a_slot_id (get_appointment_by_id ex_db2 ''a0'') = Some ''s1'' \<and>
   reschedule_appointment ex_db2 ''a0'' ''s1'' None
     = Inl (BadRequest ''Appointment cannot be rescheduled'') \<and>
   reschedule_appointment ex_db2 ''a0'' ''s1'' None
     \<noteq> Inl (BadRequest ''New appointment slot is not available'')"
  by (simp add: reschedule_appointment_def ex_defs access_defs)

section \<open>Search\<close>

text \<open>
  Claim C9. In the store \<open>ex_db0\<close> every slot is AVAILABLE, belongs to the active
  provider \<open>p1\<close> and lies in a window whose base fee is 150. A search with
  \<open>max_price = 200\<close> should return the three slots; it raises \<open>TypeError\<close> while the
  filter is built, as does every search with a price other than 0. A search with
  \<open>max_price = 0\<close> should return nothing; the filter is skipped and the three slots,
  priced 150, are returned. The sibling filter on \<open>insurance_accepted\<close> compares the
  JSON text without a cast and is guarded by \<open>is not None\<close>.
\<close>

theorem search_max_price_fails:
  "search_availability ilike ex_tzs ex_db0 (ex_criteria\<lparr>sc_max_price := Some 200\<rparr>)
     = Inl (InternalError ''TypeError'') \<and>
   map (\<lambda>s. (s_status s, map_option w_pricing (slot_availability ex_db0 s))) (slots ex_db0)
     = [(AVAILABLE, Some (Some ex_pricing)), (AVAILABLE, Some (Some ex_pricing)),
        (AVAILABLE, Some (Some ex_pricing))] \<and>
   pr_base_fee ex_pricing = Some 150 \<and>
   (case search_availability ilike ex_tzs ex_db0 (ex_criteria\<lparr>sc_max_price := Some 0\<rparr>) of
      Inl e \<Rightarrow> False
    | Inr r \<Rightarrow> sr_total_results r = 1 \<and>
              map (\<lambda>(p, sds). (ps_id p, map sd_slot_id sds)) (sr_results r)
                = [(''p1'', [''s1'', ''s2'', ''s3''])]) \<and>
   (case search_availability ilike ex_tzs ex_db0
           (ex_criteria\<lparr>sc_insurance_accepted := Some False\<rparr>) of
      Inl e \<Rightarrow> False
    | Inr r \<Rightarrow> sr_total_results r = 0)"
proof -
  have a: "search_availability ilike ex_tzs ex_db0 (ex_criteria\<lparr>sc_max_price := Some 200\<rparr>)
             = Inl (InternalError ''TypeError'')"
    by (simp add: search_availability_def ex_criteria_def)
  have b: "map (\<lambda>s. (s_status s, map_option w_pricing (slot_availability ex_db0 s))) (slots ex_db0)
             = [(AVAILABLE, Some (Some ex_pricing)), (AVAILABLE, Some (Some ex_pricing)),
                (AVAILABLE, Some (Some ex_pricing))] \<and>
           pr_base_fee ex_pricing = Some 150"
    by (simp add: ex_defs access_defs)
  have m: "filter (search_match ilike ex_db0 (ex_criteria\<lparr>sc_max_price := Some 0\<rparr>))
             (slots ex_db0) = slots ex_db0"
    by (simp add: search_match_def ex_defs access_defs)
  have c: "case search_availability ilike ex_tzs ex_db0 (ex_criteria\<lparr>sc_max_price := Some 0\<rparr>) of
      Inl e \<Rightarrow> False
    | Inr r \<Rightarrow> sr_total_results r = 1 \<and>
              map (\<lambda>(p, sds). (ps_id p, map sd_slot_id sds)) (sr_results r)
                = [(''p1'', [''s1'', ''s2'', ''s3''])]"
    unfolding search_availability_def m
    by (simp add: provider_entry_def Let_def ex_defs access_defs)
  have n: "filter (search_match ilike ex_db0 (ex_criteria\<lparr>sc_insurance_accepted := Some False\<rparr>))
             (slots ex_db0) = []"
    by (simp add: search_match_def ex_defs access_defs)
  have e: "case search_availability ilike ex_tzs ex_db0
           (ex_criteria\<lparr>sc_insurance_accepted := Some False\<rparr>) of
      Inl e \<Rightarrow> False
    | Inr r \<Rightarrow> sr_total_results r = 0"
    unfolding search_availability_def n by (simp add: ex_criteria_def)
  show ?thesis using a b c e by simp
qed

section \<open>Slot deletion\<close>




section \<open>Availability creation\<close>

lemmas creation_defs = create_provider_availability_def create_for_date_def
  generate_appointment_slots_def make_slot_def new_availability_def flush_slots_def
  dates_to_create_def existing_conflicts_def time_fromisoformat_def mk_time_def combine_def
  to_utc_def astimezone_def UTC_def Let_def

text \<open>
  Claim C5. In \<open>ex_db0\<close> provider \<open>p1\<close> has the window \<open>w1\<close> on day 10, 09:00-10:00,
  AVAILABLE. A request for day 10, 09:30-10:30, is rejected for its conflict with \<open>w1\<close>.
  The same request made for day 9 and repeated daily until day 10 is accepted: only the
  windows of day 9, the request's own date, are read by the conflict check, and the
  occurrence of day 10 is stored beside \<open>w1\<close>, which it overlaps.
\<close>

theorem conflict_check_first_date_only:
  "create_provider_availability ex_rrule ex_tzs ex_wids ex_sids ex_db0 ''p1''
     (ex_avail\<lparr>av_date := 10, av_is_recurring := False, av_recurrence_pattern := None,
               av_recurrence_end_date := None\<rparr>)
     = Inl (Conflict \<lparr>hour = 9, minute = 0\<rparr> \<lparr>hour = 10, minute = 0\<rparr>) \<and>
   dates_to_create ex_rrule ex_avail = Inr [9, 10] \<and>
   (case create_provider_availability ex_rrule ex_tzs ex_wids ex_sids ex_db0 ''p1'' ex_avail of
      Inl e \<Rightarrow> False
    | Inr (d', r) \<Rightarrow>
        r_slots_created r = 4 \<and>
        map (\<lambda>w. (w_id w, hour (w_start_time w), minute (w_start_time w),
                   hour (w_end_time w), minute (w_end_time w), w_status w))
            (filter (\<lambda>w. w_provider_id w = ''p1'' \<and> w_date w = 10) (availabilities d'))
          = [(''w1'', 9, 0, 10, 0, AVAILABLE), (''n1'', 9, 30, 10, 30, AVAILABLE)] \<and>
        map (\<lambda>s. (s_id s, s_availability_id s, s_slot_start_time s, s_slot_end_time s))
            (filter (\<lambda>s. s_availability_id s = ''n1'') (slots d'))
          = [(''n1-0'', ''n1'', 14970, 15000), (''n1-1'', ''n1'', 15000, 15030)])"
proof -
  have a: "create_provider_availability ex_rrule ex_tzs ex_wids ex_sids ex_db0 ''p1''
     (ex_avail\<lparr>av_date := 10, av_is_recurring := False, av_recurrence_pattern := None,
               av_recurrence_end_date := None\<rparr>)
     = Inl (Conflict \<lparr>hour = 9, minute = 0\<rparr> \<lparr>hour = 10, minute = 0\<rparr>)"
    by (simp add: creation_defs ex_defs access_defs)
  have b: "dates_to_create ex_rrule ex_avail = Inr [9, 10]"
    by (simp add: dates_to_create_def ex_avail_def ex_rrule_def upto.simps)
  have c: "case create_provider_availability ex_rrule ex_tzs ex_wids ex_sids ex_db0 ''p1'' ex_avail of
      Inl e \<Rightarrow> False
    | Inr (d', r) \<Rightarrow>
        r_slots_created r = 4 \<and>
        map (\<lambda>w. (w_id w, hour (w_start_time w), minute (w_start_time w),
                   hour (w_end_time w), minute (w_end_time w), w_status w))
            (filter (\<lambda>w. w_provider_id w = ''p1'' \<and> w_date w = 10) (availabilities d'))
          = [(''w1'', 9, 0, 10, 0, AVAILABLE), (''n1'', 9, 30, 10, 30, AVAILABLE)] \<and>
        map (\<lambda>s. (s_id s, s_availability_id s, s_slot_start_time s, s_slot_end_time s))
            (filter (\<lambda>s. s_availability_id s = ''n1'') (slots d'))
          = [(''n1-0'', ''n1'', 14970, 15000), (''n1-1'', ''n1'', 15000, 15030)]"
    by (simp add: creation_defs column_defs ex_defs access_defs upto.simps numeral_2_eq_2)
  show ?thesis using a b c by simp
qed

lemma time_fromisoformat_valid: "valid_time t \<Longrightarrow> time_fromisoformat t = Inr t"
  by (simp add: time_fromisoformat_def mk_time_def valid_time_def)





lemma create_provider_availability_first:
  assumes "create_provider_availability rr tzs wids sids d pid data = Inr (d', res)"
  shows "\<exists>dates dt d1 new w n.
           dates_to_create rr data = Inr dates \<and>
           create_for_date tzs wids sids pid data 0 dt d [] = Inr (d1, new, w, n)"
proof -
  from create_provider_availability_Inr[OF assms] obtain dates d1 pending created where
    dates: "dates_to_create rr data = Inr dates" "dates \<noteq> []"
    and loop: "create_loop tzs wids sids pid data 0 dates d [] [] 0
                 = Inr (d1, pending, created, r_slots_created res)"
    by blast
  from dates(2) obtain dt rest where dr: "dates = dt # rest" by (cases dates) auto
  from loop obtain d2 new w n where
    "create_for_date tzs wids sids pid data 0 dt d [] = Inr (d2, new, w, n)"
    unfolding dr by (auto split: sum.splits)
  with dates(1) show ?thesis by blast
qed




text \<open>
  Claim C4 (as amended). For every request that \<open>create_provider_availability\<close>
  accepts and whose end time is not before its start time, the number of slots created
  is the number of occurrence dates times \<open>floor(window_minutes / (slot_duration +
  break_duration))\<close>, that many slots and one window per occurrence date are added to
  the store, and every round of the loop over the occurrence dates that succeeds
  produces exactly that number of slots, all of its own window. A request with
  \<open>slot_duration + break_duration \<le> 0\<close> is never accepted, so nothing is stored; it is
  rejected as "Invalid slot duration or break duration" when the provider exists, the
  two times are valid, the first date has no conflict and the recurrence gives at least
  one occurrence date.
\<close>

theorem slots_created_count:
  "(\<forall>d' res. create_provider_availability rr tzs wids sids d pid data = Inr (d', res) \<and>
             minute_of_day (av_start_time data) \<le> minute_of_day (av_end_time data) \<longrightarrow>
      (\<exists>dates. dates_to_create rr data = Inr dates \<and>
         r_slots_created res
           = int (length dates) *
               ((minute_of_day (av_end_time data) - minute_of_day (av_start_time data))
                  div (av_slot_duration data + av_break_duration data)) \<and>
         int (length (slots d'))
           = int (length (slots d)) + r_slots_created res \<and>
         length (availabilities d') = length (availabilities d) + length dates)) \<and>
   (\<forall>k dt d0 pending d1 new w n.
      create_for_date tzs wids sids pid data k dt d0 pending = Inr (d1, new, w, n) \<longrightarrow>
        n = int (length new) \<and>
        length new = nat ((minute_of_day (av_end_time data) - minute_of_day (av_start_time data))
                            div (av_slot_duration data + av_break_duration data)) \<and>
        (\<forall>s \<in> set new. s_availability_id s = w_id w) \<and> w_date w = dt) \<and>
   (av_slot_duration data + av_break_duration data \<le> 0 \<longrightarrow>
      (\<exists>e. create_provider_availability rr tzs wids sids d pid data = Inl e) \<and>
      (\<forall>dates. get_provider_by_id d pid \<noteq> None \<and>
         valid_time (av_start_time data) \<and> valid_time (av_end_time data) \<and>
         check_conflicts (combine (av_date data) (av_start_time data))
           (combine (av_date data) (av_end_time data))
           (existing_conflicts d pid (av_date data)) = Inr () \<and>
         dates_to_create rr data = Inr dates \<and> dates \<noteq> [] \<longrightarrow>
           create_provider_availability rr tzs wids sids d pid data
             = Inl (BadRequest ''Invalid slot duration or break duration'')))"
proof (intro conjI allI impI)
  let ?c = "(minute_of_day (av_end_time data) - minute_of_day (av_start_time data))
              div (av_slot_duration data + av_break_duration data)"
  fix d' res
  assume h: "create_provider_availability rr tzs wids sids d pid data = Inr (d', res) \<and>
             minute_of_day (av_start_time data) \<le> minute_of_day (av_end_time data)"
  from create_provider_availability_Inr[OF h[THEN conjunct1]]
  obtain dates d1 pending created where
    dates: "dates_to_create rr data = Inr dates" "dates \<noteq> []"
    and loop: "create_loop tzs wids sids pid data 0 dates d [] [] 0
                 = Inr (d1, pending, created, r_slots_created res)"
    and fl: "flush_slots d1 pending = Inr d'"
    by blast
  from create_loop_count[OF loop] dates(2) have
    cnt: "r_slots_created res = int (length dates) * int (nat ?c)"
      "length (availabilities d1) = length (availabilities d) + length dates"
      "length (slots d1) + length pending = length (slots d) + length dates * nat ?c"
      "0 < av_slot_duration data + av_break_duration data"
    by simp_all
  from h cnt(4) have "0 \<le> ?c" by (simp add: pos_imp_zdiv_nonneg_iff)
  then have nc: "int (nat ?c) = ?c" by simp
  from flush_slots_Inr[OF fl] have d': "d' = d1\<lparr>slots := slots d1 @ pending\<rparr>" by simp
  have r: "r_slots_created res = int (length dates) * ?c" using cnt(1) nc by simp
  have "int (length (slots d')) = int (length (slots d1) + length pending)"
    by (simp add: d')
  also have "\<dots> = int (length (slots d) + length dates * nat ?c)" using cnt(3) by simp
  also have "\<dots> = int (length (slots d)) + r_slots_created res" using cnt(1) by simp
  finally have s: "int (length (slots d')) = int (length (slots d)) + r_slots_created res" .
  have w: "length (availabilities d') = length (availabilities d) + length dates"
    using cnt(2) by (simp add: d')
  show "\<exists>dates. dates_to_create rr data = Inr dates \<and>
         r_slots_created res = int (length dates) * ?c \<and>
         int (length (slots d')) = int (length (slots d)) + r_slots_created res \<and>
         length (availabilities d') = length (availabilities d) + length dates"
    using dates(1) r s w by blast
next
  fix k dt d0 pending d1 new w n
  assume c: "create_for_date tzs wids sids pid data k dt d0 pending = Inr (d1, new, w, n)"
  from create_for_date_store[OF c]
  show "n = int (length new)"
    and "length new = nat ((minute_of_day (av_end_time data) - minute_of_day (av_start_time data))
                            div (av_slot_duration data + av_break_duration data))"
    and "\<forall>s \<in> set new. s_availability_id s = w_id w"
    and "w_date w = dt"
    by simp_all
next
  assume e: "av_slot_duration data + av_break_duration data \<le> 0"
  show "\<exists>e. create_provider_availability rr tzs wids sids d pid data = Inl e"
  proof (cases "create_provider_availability rr tzs wids sids d pid data")
    case (Inl e)
    then show ?thesis by blast
  next
    case (Inr p)
    obtain d' res where p: "p = (d', res)" by (cases p)
    from create_provider_availability_first[OF Inr[unfolded p]] obtain dt d1 new w n where
      "create_for_date tzs wids sids pid data 0 dt d [] = Inr (d1, new, w, n)"
      by blast
    from create_for_date_Inr[OF this] e have False by simp
    then show ?thesis ..
  qed
next
  fix dates
  assume e: "av_slot_duration data + av_break_duration data \<le> 0"
    and h: "get_provider_by_id d pid \<noteq> None \<and>
         valid_time (av_start_time data) \<and> valid_time (av_end_time data) \<and>
         check_conflicts (combine (av_date data) (av_start_time data))
           (combine (av_date data) (av_end_time data))
           (existing_conflicts d pid (av_date data)) = Inr () \<and>
         dates_to_create rr data = Inr dates \<and> dates \<noteq> []"
  then obtain prov dt rest where prov: "get_provider_by_id d pid = Some prov"
    and dr: "dates = dt # rest"
    by (cases dates) auto
  have c: "create_for_date tzs wids sids pid data 0 dt d []
             = Inl (BadRequest ''Invalid slot duration or break duration'')"
    using e h by (simp add: create_for_date_def time_fromisoformat_valid)
  show "create_provider_availability rr tzs wids sids d pid data
             = Inl (BadRequest ''Invalid slot duration or break duration'')"
    using h prov c unfolding dr
    by (simp add: create_provider_availability_def time_fromisoformat_valid)
qed

theorem slots_created_count_witness:
  "minute_of_day (av_start_time ex_avail) \<le> minute_of_day (av_end_time ex_avail) \<and>
   dates_to_create ex_rrule ex_avail = Inr [9, 10] \<and>
   (\<exists>d' res. create_provider_availability ex_rrule ex_tzs ex_wids ex_sids ex_db0 ''p1'' ex_avail
                = Inr (d', res) \<and>
              r_slots_created res = 4 \<and> length (slots d') = 7 \<and>
              length (availabilities d') = 4) \<and>
   (\<exists>d1 new w n. create_for_date ex_tzs ex_wids ex_sids ''p1'' ex_avail 0 9 ex_db0 []
                    = Inr (d1, new, w, n) \<and> n = 2 \<and> length new = 2) \<and>
   av_slot_duration (ex_avail\<lparr>av_slot_duration := 0\<rparr>)
     + av_break_duration (ex_avail\<lparr>av_slot_duration := 0\<rparr>) \<le> 0 \<and>
   create_provider_availability ex_rrule ex_tzs ex_wids ex_sids ex_db0 ''p1''
     (ex_avail\<lparr>av_slot_duration := 0\<rparr>)
     = Inl (BadRequest ''Invalid slot duration or break duration'')"
proof -
  have m: "minute_of_day (av_start_time ex_avail) \<le> minute_of_day (av_end_time ex_avail)"
    by (simp add: ex_avail_def minute_of_day_def)
  have c: "(minute_of_day (av_end_time ex_avail) - minute_of_day (av_start_time ex_avail))
             div (av_slot_duration ex_avail + av_break_duration ex_avail) = 2"
    by (simp add: ex_avail_def minute_of_day_def)
  have dt: "dates_to_create ex_rrule ex_avail = Inr [9, 10]"
    by (simp add: dates_to_create_def ex_avail_def ex_rrule_def upto.simps)
  have ok: "\<exists>d' res. create_provider_availability ex_rrule ex_tzs ex_wids ex_sids ex_db0 ''p1''
                       ex_avail = Inr (d', res)"
    by (simp add: creation_defs column_defs ex_defs access_defs upto.simps numeral_2_eq_2)
  then obtain d' res where
    r: "create_provider_availability ex_rrule ex_tzs ex_wids ex_sids ex_db0 ''p1'' ex_avail
          = Inr (d', res)"
    by blast
  have l0: "length (slots ex_db0) = 3" "length (availabilities ex_db0) = 2"
    by (simp_all add: ex_db0_def)
  have ok1: "\<exists>d1 new w n. create_for_date ex_tzs ex_wids ex_sids ''p1'' ex_avail 0 9 ex_db0 []
                            = Inr (d1, new, w, n)"
    by (simp add: creation_defs column_defs ex_defs access_defs numeral_2_eq_2)
  then obtain d1 new w n where
    r1: "create_for_date ex_tzs ex_wids ex_sids ''p1'' ex_avail 0 9 ex_db0 [] = Inr (d1, new, w, n)"
    by blast
  have z: "av_slot_duration (ex_avail\<lparr>av_slot_duration := 0\<rparr>)
             + av_break_duration (ex_avail\<lparr>av_slot_duration := 0\<rparr>) \<le> 0"
    by (simp add: ex_avail_def)
  have zh: "get_provider_by_id ex_db0 ''p1'' \<noteq> None"
    "valid_time (av_start_time (ex_avail\<lparr>av_slot_duration := 0\<rparr>))"
    "valid_time (av_end_time (ex_avail\<lparr>av_slot_duration := 0\<rparr>))"
    "check_conflicts
       (combine (av_date (ex_avail\<lparr>av_slot_duration := 0\<rparr>))
          (av_start_time (ex_avail\<lparr>av_slot_duration := 0\<rparr>)))
       (combine (av_date (ex_avail\<lparr>av_slot_duration := 0\<rparr>))
          (av_end_time (ex_avail\<lparr>av_slot_duration := 0\<rparr>)))
       (existing_conflicts ex_db0 ''p1'' (av_date (ex_avail\<lparr>av_slot_duration := 0\<rparr>)))
       = Inr ()"
    "dates_to_create ex_rrule (ex_avail\<lparr>av_slot_duration := 0\<rparr>) = Inr [9, 10]"
    by (simp_all add: ex_defs access_defs valid_time_def existing_conflicts_def
        dates_to_create_def upto.simps)
  note t = slots_created_count[of ex_rrule ex_tzs ex_wids ex_sids ex_db0 "''p1''" ex_avail]
  from t[THEN conjunct1, rule_format, OF conjI[OF r m]] obtain dates where
    u: "dates_to_create ex_rrule ex_avail = Inr dates"
       "r_slots_created res
          = int (length dates) *
              ((minute_of_day (av_end_time ex_avail) - minute_of_day (av_start_time ex_avail))
                 div (av_slot_duration ex_avail + av_break_duration ex_avail))"
       "int (length (slots d')) = int (length (slots ex_db0)) + r_slots_created res"
       "length (availabilities d') = length (availabilities ex_db0) + length dates"
    by blast
  from u(1) dt have ds: "dates = [9, 10]" by simp
  have a1: "r_slots_created res = 4" using u(2) by (simp add: ds c)
  have a2: "length (slots d') = 7" using u(3) a1 l0 by simp
  have a3: "length (availabilities d') = 4" using u(4) l0 by (simp add: ds)
  have a: "r_slots_created res = 4 \<and> length (slots d') = 7 \<and>
           length (availabilities d') = 4"
    using a1 a2 a3 by simp
  from t[THEN conjunct2, THEN conjunct1, rule_format, OF r1]
  have b: "n = 2 \<and> length new = 2" by (simp add: c)
  from slots_created_count[of ex_rrule ex_tzs ex_wids ex_sids ex_db0 "''p1''"
      "ex_avail\<lparr>av_slot_duration := 0\<rparr>", THEN conjunct2, THEN conjunct2, THEN mp, OF z, THEN conjunct2,
      rule_format, of "[9, 10]"] zh
  have e: "create_provider_availability ex_rrule ex_tzs ex_wids ex_sids ex_db0 ''p1''
             (ex_avail\<lparr>av_slot_duration := 0\<rparr>)
             = Inl (BadRequest ''Invalid slot duration or break duration'')"
    by simp
  show ?thesis using m dt r a r1 b z e by blast
qed

text \<open>
  The claim as stated fails in two ways. A window from 23:00 to 23:59 with 60-minute
  slots and a break of -30 minutes ends after it starts and has a positive effective
  duration of 30 minutes, so that one slot is due; its end, 24:00, is no time of day,
  \<open>time(24, 0)\<close> raises \<open>ValueError\<close> and nothing is created. And a request with an
  effective duration of 0 is not rejected as invalid configuration when an earlier
  check fails or the loop never runs: for a provider that does not exist it is
  rejected as "Provider not found", with a start time of 25:00 it ends in
  \<open>ValueError\<close>, on day 10 it is rejected for its conflict with window \<open>w1\<close>, with the
  pattern "yearly" as "Invalid recurrence pattern", and with a recurrence that ends
  before it starts, hence without occurrence date, it ends in \<open>IndexError\<close>.
\<close>

theorem slots_created_count_counterexample:
  "minute_of_day \<lparr>hour = 23, minute = 0\<rparr> < minute_of_day \<lparr>hour = 23, minute = 59\<rparr> \<and>
   (minute_of_day \<lparr>hour = 23, minute = 59\<rparr> - minute_of_day \<lparr>hour = 23, minute = 0\<rparr>)
      div (60 + (- 30)) = 1 \<and>
   create_provider_availability ex_rrule ex_tzs ex_wids ex_sids ex_db0 ''p1''
     (ex_avail\<lparr>av_start_time := \<lparr>hour = 23, minute = 0\<rparr>,
               av_end_time := \<lparr>hour = 23, minute = 59\<rparr>,
               av_slot_duration := 60, av_break_duration := - 30\<rparr>)
     = Inl (InternalError ''ValueError'') \<and>
   create_provider_availability ex_rrule ex_tzs ex_wids ex_sids ex_db0 ''p7''
     (ex_avail\<lparr>av_slot_duration := 0\<rparr>)
     = Inl (NotFound ''Provider not found'') \<and>
   create_provider_availability ex_rrule ex_tzs ex_wids ex_sids ex_db0 ''p1''
     (ex_avail\<lparr>av_slot_duration := 0, av_start_time := \<lparr>hour = 25, minute = 0\<rparr>\<rparr>)
     = Inl (InternalError ''ValueError'') \<and>
   create_provider_availability ex_rrule ex_tzs ex_wids ex_sids ex_db0 ''p1''
     (ex_avail\<lparr>av_slot_duration := 0, av_date := 10\<rparr>)
     = Inl (Conflict \<lparr>hour = 9, minute = 0\<rparr> \<lparr>hour = 10, minute = 0\<rparr>) \<and>
   create_provider_availability ex_rrule ex_tzs ex_wids ex_sids ex_db0 ''p1''
     (ex_avail\<lparr>av_slot_duration := 0, av_recurrence_pattern := Some ''yearly''\<rparr>)
     = Inl (BadRequest ''Invalid recurrence pattern'') \<and>
   dates_to_create ex_rrule (ex_avail\<lparr>av_slot_duration := 0, av_recurrence_end_date := Some 8\<rparr>)
     = Inr [] \<and>
   create_provider_availability ex_rrule ex_tzs ex_wids ex_sids ex_db0 ''p1''
     (ex_avail\<lparr>av_slot_duration := 0, av_recurrence_end_date := Some 8\<rparr>)
     = Inl (InternalError ''IndexError'')"
proof -
  have c1: "create_provider_availability ex_rrule ex_tzs ex_wids ex_sids ex_db0 ''p1''
     (ex_avail\<lparr>av_slot_duration := 0, av_start_time := \<lparr>hour = 25, minute = 0\<rparr>\<rparr>)
     = Inl (InternalError ''ValueError'')"
    by (simp add: creation_defs ex_defs access_defs)
  have c2: "create_provider_availability ex_rrule ex_tzs ex_wids ex_sids ex_db0 ''p1''
     (ex_avail\<lparr>av_slot_duration := 0, av_date := 10\<rparr>)
     = Inl (Conflict \<lparr>hour = 9, minute = 0\<rparr> \<lparr>hour = 10, minute = 0\<rparr>)"
    by (simp add: creation_defs ex_defs access_defs)
  have c3: "create_provider_availability ex_rrule ex_tzs ex_wids ex_sids ex_db0 ''p1''
     (ex_avail\<lparr>av_slot_duration := 0, av_recurrence_pattern := Some ''yearly''\<rparr>)
     = Inl (BadRequest ''Invalid recurrence pattern'')"
    by (simp add: creation_defs ex_defs access_defs)
  have a: "minute_of_day \<lparr>hour = 23, minute = 0\<rparr> < minute_of_day \<lparr>hour = 23, minute = 59\<rparr> \<and>
     (minute_of_day \<lparr>hour = 23, minute = 59\<rparr> - minute_of_day \<lparr>hour = 23, minute = 0\<rparr>)
        div (60 + (- 30)) = 1"
    by (simp add: minute_of_day_def)
  have b: "create_provider_availability ex_rrule ex_tzs ex_wids ex_sids ex_db0 ''p1''
     (ex_avail\<lparr>av_start_time := \<lparr>hour = 23, minute = 0\<rparr>,
               av_end_time := \<lparr>hour = 23, minute = 59\<rparr>,
               av_slot_duration := 60, av_break_duration := - 30\<rparr>)
     = Inl (InternalError ''ValueError'')"
    by (simp add: creation_defs column_defs ex_defs access_defs upto.simps)
  have c: "create_provider_availability ex_rrule ex_tzs ex_wids ex_sids ex_db0 ''p7''
     (ex_avail\<lparr>av_slot_duration := 0\<rparr>)
     = Inl (NotFound ''Provider not found'')"
    by (simp add: creation_defs ex_defs access_defs)
  have d: "dates_to_create ex_rrule
             (ex_avail\<lparr>av_slot_duration := 0, av_recurrence_end_date := Some 8\<rparr>) = Inr []"
    by (simp add: dates_to_create_def ex_avail_def ex_rrule_def upto.simps)
  have e: "create_provider_availability ex_rrule ex_tzs ex_wids ex_sids ex_db0 ''p1''
     (ex_avail\<lparr>av_slot_duration := 0, av_recurrence_end_date := Some 8\<rparr>)
     = Inl (InternalError ''IndexError'')"
    by (simp add: creation_defs column_defs ex_defs access_defs upto.simps)
  show ?thesis using a b c c1 c2 c3 d e by simp
qed




end
